theory Spec2Isabelle
  imports Main
begin

section \<open>Deposit amounts of a GM/GLV market\<close>

text \<open>
  A shallow embedding of \<^verbatim>\<open>src/domain/synthetics/trade/utils/deposit.ts\<close>: the exported
  function \<^verbatim>\<open>getDepositAmounts\<close> and its private helper
  \<^verbatim>\<open>getMarketTokenAmountByCollateral\<close>. A \<^verbatim>\<open>bigint\<close> is an \<open>int\<close>. The
  functions the file imports are not part of the sources at hand: the arithmetic and
  conversion primitives are modelled from the specification (section 4.3), the pricing
  collaborators are parameters of the model (the record \<open>Env\<close>).
\<close>

subsection \<open>Failures\<close>

text \<open>
  Two things can go wrong while the code runs. A \<^verbatim>\<open>bigint\<close> division by zero throws a
  \<^verbatim>\<open>RangeError\<close>. A conversion can return \<^verbatim>\<open>undefined\<close>; where the source asserts
  with \<^verbatim>\<open>!\<close> that it did not, and stores the value in a field or a variable of type
  \<^verbatim>\<open>bigint\<close>, the model stops with \<open>UndefinedValue\<close>: from that point on the source
  computes with a value outside its declared types.
\<close>

datatype error = RangeError | UndefinedValue

definition bindE :: "error + 'a \<Rightarrow> ('a \<Rightarrow> error + 'b) \<Rightarrow> error + 'b" where
  "bindE m f = (case m of Inl e \<Rightarrow> Inl e | Inr x \<Rightarrow> f x)"

definition assertDefined :: "'a option \<Rightarrow> error + 'a" where
  "assertDefined v = (case v of None \<Rightarrow> Inl UndefinedValue | Some x \<Rightarrow> Inr x)"

text \<open>The nullish coalescing \<^verbatim>\<open>v ?? 0n\<close>.\<close>

definition orZero :: "int option \<Rightarrow> int" where
  "orZero v = (case v of None \<Rightarrow> 0 | Some x \<Rightarrow> x)"

subsection \<open>Arithmetic and conversion primitives\<close>

text \<open>
  The operator \<^verbatim>\<open>/\<close> on two \<^verbatim>\<open>bigint\<close>s with a divisor that is not zero: the quotient
  rounded toward zero. On a dividend and a divisor that are not negative this is the
  floor of the quotient.
\<close>

definition bigintDiv :: "int \<Rightarrow> int \<Rightarrow> int" where
  "bigintDiv a b = sgn a * sgn b * (\<bar>a\<bar> div \<bar>b\<bar>)"

text \<open>
  Modelled from the spec: \<^verbatim>\<open>bigMath.mulDiv\<close> of \<^verbatim>\<open>lib/bigmath\<close>, which is not among the
  sources. "mulDiv(a, b, denominator) computing a*b/denominator with full intermediate
  precision [...] and truncating (floor) division unless a rounding-up variant is
  explicitly required by a caller"; \<^verbatim>\<open>deposit.ts\<close> never asks for the rounding-up
  variant. The division is the \<^verbatim>\<open>bigint\<close> division of the language, which throws on a
  zero denominator; an \<open>int\<close> has the full precision.
\<close>

definition mulDiv :: "int \<Rightarrow> int \<Rightarrow> int \<Rightarrow> error + int" where
  "mulDiv x y z = (if z = 0 then Inl RangeError else Inr (bigintDiv (x * y) z))"

text \<open>
  Modelled from the spec: \<^verbatim>\<open>convertToUsd\<close> and \<^verbatim>\<open>convertToTokenAmount\<close> of
  \<^verbatim>\<open>domain/synthetics/tokens\<close>, which are not among the sources.
  "toUsd(amount, decimals, price) = amount * price / 10^decimals;
  toTokenAmount(usd, decimals, price) = usd * 10^decimals / price. Both fail (return a
  sentinel/undefined) when price == 0".
\<close>

definition convertToUsd :: "int \<Rightarrow> nat \<Rightarrow> int \<Rightarrow> int option" where
  "convertToUsd tokenAmount tokenDecimals price =
     (if price = 0 then None else Some (bigintDiv (tokenAmount * price) (10 ^ tokenDecimals)))"

definition convertToTokenAmount :: "int \<Rightarrow> nat \<Rightarrow> int \<Rightarrow> int option" where
  "convertToTokenAmount usd tokenDecimals price =
     (if price = 0 then None else Some (bigintDiv (usd * 10 ^ tokenDecimals) price))"

record TokenPrices =
  minPrice :: int
  maxPrice :: int

text \<open>
  Modelled from the spec: \<^verbatim>\<open>getMidPrice\<close> of \<^verbatim>\<open>domain/synthetics/tokens\<close>, which is not
  among the sources. "Mid price: arithmetic mean of min and max price".
\<close>

definition getMidPrice :: "TokenPrices \<Rightarrow> int" where
  "getMidPrice ps = bigintDiv (minPrice ps + maxPrice ps) 2"

subsection \<open>Data\<close>

text \<open>
  Of the imported types \<^verbatim>\<open>TokenData\<close> and \<^verbatim>\<open>GlvMarketInfo\<close> the records keep the fields
  that \<^verbatim>\<open>deposit.ts\<close> reads.
\<close>

record TokenData =
  decimals :: nat
  prices :: TokenPrices

text \<open>
  Modelled from the spec: the type \<^verbatim>\<open>MarketInfo\<close> of \<^verbatim>\<open>domain/synthetics/markets\<close>, which is
  not among the sources. \<^verbatim>\<open>deposit.ts\<close> reads the two pool amounts (lines 183-184); the two
  swap fee factors are the "fee factor, optionally a positive/negative asymmetry" that
  the spec gives a market.
\<close>

record MarketInfo =
  longPoolAmount :: int
  shortPoolAmount :: int
  swapFeeFactorForPositiveImpact :: int
  swapFeeFactorForNegativeImpact :: int

record GlvMarketInfo =
  indexToken :: TokenData

datatype Strategy = byCollaterals | byMarketToken

text \<open>
  The parameter object of \<^verbatim>\<open>getDepositAmounts\<close> (lines 9-24). The optional flag
  \<^verbatim>\<open>forShift\<close> is only ever tested for truthiness, so an absent flag is \<open>False\<close>; the
  optional \<^verbatim>\<open>vaultInfo\<close> is an \<open>option\<close>.
\<close>

record DepositParams =
  marketInfo :: MarketInfo
  marketToken :: TokenData
  longToken :: TokenData
  shortToken :: TokenData
  longTokenAmount :: int
  shortTokenAmount :: int
  marketTokenAmount :: int
  strategy :: Strategy
  includeLongToken :: bool
  includeShortToken :: bool
  uiFeeFactor :: int
  forShift :: bool
  isMarketTokenDeposit :: bool
  vaultInfo :: "GlvMarketInfo option"

text \<open>The result type \<^verbatim>\<open>DepositAmounts\<close>, with the fields of lines 44-54.\<close>

record DepositAmounts =
  longTokenAmount :: int
  longTokenUsd :: int
  shortTokenAmount :: int
  shortTokenUsd :: int
  marketTokenAmount :: int
  marketTokenUsd :: int
  swapFeeUsd :: int
  uiFeeUsd :: int
  swapPriceImpactDeltaUsd :: int

subsection \<open>Collaborators\<close>

text \<open>
  The pricing functions that \<^verbatim>\<open>deposit.ts\<close> imports from \<^verbatim>\<open>domain/synthetics/fees\<close> and
  \<^verbatim>\<open>domain/synthetics/markets\<close>, and the scale of a factor, are parameters of the model.
  Of the pair that \<^verbatim>\<open>applySwapImpactWithCap\<close> returns, the code reads only
  \<^verbatim>\<open>impactDeltaAmount\<close>.
\<close>

record Env =
  PRECISION :: int
  getPriceImpactForSwap :: "MarketInfo \<Rightarrow> TokenData \<Rightarrow> TokenData \<Rightarrow> int \<Rightarrow> int \<Rightarrow> int"
  applySwapImpactWithCap :: "MarketInfo \<Rightarrow> TokenData \<Rightarrow> int \<Rightarrow> int"
  usdToMarketTokenAmount :: "MarketInfo \<Rightarrow> TokenData \<Rightarrow> int \<Rightarrow> int"
  marketTokenAmountToUsd :: "MarketInfo \<Rightarrow> TokenData \<Rightarrow> int \<Rightarrow> int"

text \<open>
  Modelled from the spec: \<^verbatim>\<open>applyFactor\<close> of \<^verbatim>\<open>lib/numbers\<close> and \<^verbatim>\<open>getSwapFee\<close> of
  \<^verbatim>\<open>domain/synthetics/fees\<close>, which are not among the sources.
  "feeUsd = notionalUsd * feeFactor / 1e<factor-precision>, where feeFactor may differ
  depending on whether the swap direction increases or decreases the book's imbalance".
\<close>

definition applyFactor :: "Env \<Rightarrow> int \<Rightarrow> int \<Rightarrow> int" where
  "applyFactor env v factor = bigintDiv (v * factor) (PRECISION env)"

definition getSwapFee :: "Env \<Rightarrow> MarketInfo \<Rightarrow> int \<Rightarrow> bool \<Rightarrow> int" where
  "getSwapFee env mi swapAmount forPositiveImpact =
     applyFactor env swapAmount
       (if forPositiveImpact then swapFeeFactorForPositiveImpact mi
        else swapFeeFactorForNegativeImpact mi)"

subsection \<open>The per-side minting helper\<close>

text \<open>
  \<^verbatim>\<open>getMarketTokenAmountByCollateral\<close>, lines 244-288; the arguments are the fields of
  its parameter object in the order of line 254. The branch on the sign of the impact
  yields the pair of \<^verbatim>\<open>mintAmount\<close> and \<^verbatim>\<open>amountInAfterFees\<close> that lines 284-287
  continue with.
\<close>

definition getMarketTokenAmountByCollateral ::
  "Env \<Rightarrow> MarketInfo \<Rightarrow> TokenData \<Rightarrow> TokenData \<Rightarrow> TokenData \<Rightarrow> int \<Rightarrow> int \<Rightarrow> int \<Rightarrow> int
     \<Rightarrow> error + int" where
  "getMarketTokenAmountByCollateral env mi mt tokenIn tokenOut amount priceImpactDeltaUsd
       sideSwapFeeUsd sideUiFeeUsd =
     bindE (assertDefined
       (convertToTokenAmount sideSwapFeeUsd (decimals tokenIn) (minPrice (prices tokenIn))))
     (\<lambda>swapFeeAmount.
     bindE (assertDefined
       (convertToTokenAmount sideUiFeeUsd (decimals tokenIn) (minPrice (prices tokenIn))))
     (\<lambda>uiFeeAmount.
     let amountInAfterFees = amount - swapFeeAmount - uiFeeAmount;
         mintAmount = 0
     in
     bindE
       (if priceImpactDeltaUsd > 0 then
          let positiveImpactAmount = applySwapImpactWithCap env mi tokenOut priceImpactDeltaUsd
          in
          bindE (assertDefined
            (convertToUsd positiveImpactAmount (decimals tokenOut) (maxPrice (prices tokenOut))))
          (\<lambda>usdValue.
            Inr (mintAmount + usdToMarketTokenAmount env mi mt usdValue, amountInAfterFees))
        else
          let negativeImpactAmount = applySwapImpactWithCap env mi tokenIn priceImpactDeltaUsd
          in Inr (mintAmount, amountInAfterFees + negativeImpactAmount))
     (\<lambda>(mintAmount, amountInAfterFees).
     bindE (assertDefined
       (convertToUsd amountInAfterFees (decimals tokenIn) (minPrice (prices tokenIn))))
     (\<lambda>usdValue. Inr (mintAmount + usdToMarketTokenAmount env mi mt usdValue)))))"

subsection \<open>The strategy byCollaterals\<close>

text \<open>The record of lines 44-54.\<close>

definition zeroValues :: DepositAmounts where
  "zeroValues =
     \<lparr> longTokenAmount = 0, longTokenUsd = 0, shortTokenAmount = 0, shortTokenUsd = 0,
       marketTokenAmount = 0, marketTokenUsd = 0, swapFeeUsd = 0, uiFeeUsd = 0,
       swapPriceImpactDeltaUsd = 0 \<rparr>"

text \<open>
  Lines 67-78, the deposit of GM tokens into a vault: \<open>v\<close> is the vault and
  \<open>longTokenPrice\<close> the mid price of line 41.
\<close>

definition vaultShortcut ::
  "DepositParams \<Rightarrow> GlvMarketInfo \<Rightarrow> int \<Rightarrow> DepositAmounts \<Rightarrow> error + DepositAmounts" where
  "vaultShortcut p v longTokenPrice values =
     bindE (assertDefined
       (convertToUsd (DepositParams.longTokenAmount p) (decimals (longToken p)) longTokenPrice))
     (\<lambda>gmTokenUsd.
     let glvTokenAmount = orZero (convertToTokenAmount gmTokenUsd
           (decimals (indexToken v)) (minPrice (prices (indexToken v))));
         glvTokenUsd = orZero (convertToUsd glvTokenAmount
           (decimals (indexToken v)) (minPrice (prices (indexToken v))))
     in Inr (values\<lparr> marketTokenAmount := glvTokenAmount, marketTokenUsd := glvTokenUsd \<rparr>))"

text \<open>
  Lines 93-114 with \<open>tokenIn = longToken\<close>, \<open>tokenOut = shortToken\<close> and the long side's
  value and amount, and lines 116-137 with the tokens exchanged and the short side's
  value and amount: the two blocks differ in nothing else.
\<close>

definition depositSide ::
  "Env \<Rightarrow> DepositParams \<Rightarrow> TokenData \<Rightarrow> TokenData \<Rightarrow> int \<Rightarrow> int \<Rightarrow> int \<Rightarrow> DepositAmounts
     \<Rightarrow> error + DepositAmounts" where
  "depositSide env p tokenIn tokenOut sideUsd sideAmount totalDepositUsd values =
     (if sideUsd > 0 then
        let sideSwapFeeUsd =
              (if forShift p then 0
               else getSwapFee env (marketInfo p) sideUsd (swapPriceImpactDeltaUsd values > 0));
            values = values\<lparr> swapFeeUsd := swapFeeUsd values + sideSwapFeeUsd \<rparr>;
            sideUiFeeUsd = applyFactor env sideUsd (uiFeeFactor p);
            values = values\<lparr> uiFeeUsd := uiFeeUsd values + sideUiFeeUsd \<rparr>
        in
        bindE (mulDiv (swapPriceImpactDeltaUsd values) sideUsd totalDepositUsd)
        (\<lambda>priceImpactDeltaUsd.
        bindE (getMarketTokenAmountByCollateral env (marketInfo p) (marketToken p)
                 tokenIn tokenOut sideAmount priceImpactDeltaUsd sideSwapFeeUsd sideUiFeeUsd)
        (\<lambda>minted. Inr (values\<lparr> marketTokenAmount := marketTokenAmount values + minted \<rparr>)))
      else Inr values)"

text \<open>Lines 141-154, the conversion of the minted amount into vault tokens.\<close>

definition wrapVault :: "DepositParams \<Rightarrow> DepositAmounts \<Rightarrow> DepositAmounts" where
  "wrapVault p values =
     (case vaultInfo p of
        None \<Rightarrow> values
      | Some v \<Rightarrow>
          let glvPrice = maxPrice (prices (indexToken v));
              mtUsd =
                (if isMarketTokenDeposit p then
                   convertToUsd (DepositAmounts.longTokenAmount values) (decimals (longToken p))
                     (minPrice (prices (longToken p)))
                 else Some (marketTokenUsd values));
              glvAmount =
                Option.bind mtUsd (\<lambda>u. convertToTokenAmount u (decimals (indexToken v)) glvPrice)
          in
          (case glvAmount of
             None \<Rightarrow> values
           | Some a \<Rightarrow> if a > 0 then values\<lparr> marketTokenAmount := a \<rparr> else values))"

text \<open>Lines 56-154.\<close>

definition depositByCollaterals :: "Env \<Rightarrow> DepositParams \<Rightarrow> error + DepositAmounts" where
  "depositByCollaterals env p =
     (let longTokenPrice = getMidPrice (prices (longToken p));
          shortTokenPrice = getMidPrice (prices (shortToken p));
          values = zeroValues
      in
      if DepositParams.longTokenAmount p = 0 \<and> DepositParams.shortTokenAmount p = 0 then
        Inr values
      else
        let values = values\<lparr> longTokenAmount := DepositParams.longTokenAmount p \<rparr> in
        bindE (assertDefined
          (convertToUsd (DepositParams.longTokenAmount p) (decimals (longToken p)) longTokenPrice))
        (\<lambda>longUsd.
        let values = values\<lparr> longTokenUsd := longUsd \<rparr> in
        (case (if isMarketTokenDeposit p then vaultInfo p else None) of
           Some v \<Rightarrow> vaultShortcut p v longTokenPrice values
         | None \<Rightarrow>
             let values = values\<lparr> shortTokenAmount := DepositParams.shortTokenAmount p \<rparr> in
             bindE (assertDefined
               (convertToUsd (DepositParams.shortTokenAmount p) (decimals (shortToken p))
                  shortTokenPrice))
             (\<lambda>shortUsd.
             let values = values\<lparr> shortTokenUsd := shortUsd \<rparr>;
                 values = values\<lparr> swapPriceImpactDeltaUsd :=
                   getPriceImpactForSwap env (marketInfo p) (longToken p) (shortToken p)
                     (longTokenUsd values) (shortTokenUsd values) \<rparr>;
                 totalDepositUsd = longTokenUsd values + shortTokenUsd values
             in
             bindE (depositSide env p (longToken p) (shortToken p) (longTokenUsd values)
                      (DepositAmounts.longTokenAmount values) totalDepositUsd values)
             (\<lambda>values.
             bindE (depositSide env p (shortToken p) (longToken p) (shortTokenUsd values)
                      (DepositAmounts.shortTokenAmount values) totalDepositUsd values)
             (\<lambda>values.
             bindE (assertDefined
               (convertToUsd (marketTokenAmount values) (decimals (marketToken p))
                  (minPrice (prices (marketToken p)))))
             (\<lambda>mtUsd. Inr (wrapVault p (values\<lparr> marketTokenUsd := mtUsd \<rparr>)))))))))"

subsection \<open>The strategy byMarketToken\<close>

text \<open>
  Lines 181-199, the split of the market token value between the two sides;
  \<open>prevLongTokenUsd\<close>, \<open>prevShortTokenUsd\<close> and \<open>prevSumUsd\<close> are the variables of lines
  177-179.
\<close>

definition splitUsd ::
  "DepositParams \<Rightarrow> int \<Rightarrow> int \<Rightarrow> int \<Rightarrow> DepositAmounts \<Rightarrow> error + DepositAmounts" where
  "splitUsd p prevLongTokenUsd prevShortTokenUsd prevSumUsd values =
     (if forShift p then
        let longPoolAmount' = longPoolAmount (marketInfo p);
            shortPoolAmount' = shortPoolAmount (marketInfo p)
        in
        bindE (assertDefined
          (convertToUsd longPoolAmount' (decimals (longToken p)) (maxPrice (prices (longToken p)))))
        (\<lambda>longPoolUsd.
        bindE (assertDefined
          (convertToUsd shortPoolAmount' (decimals (shortToken p))
             (maxPrice (prices (shortToken p)))))
        (\<lambda>shortPoolUsd.
        let totalPoolUsd = longPoolUsd + shortPoolUsd in
        bindE (mulDiv (marketTokenUsd values) longPoolUsd totalPoolUsd)
        (\<lambda>l.
        let values = values\<lparr> longTokenUsd := l \<rparr> in
        bindE (mulDiv (marketTokenUsd values) shortPoolUsd totalPoolUsd)
        (\<lambda>s. Inr (values\<lparr> shortTokenUsd := s \<rparr>)))))
      else if includeLongToken p \<and> includeShortToken p \<and> prevSumUsd > 0 then
        bindE (mulDiv (marketTokenUsd values) prevLongTokenUsd prevSumUsd)
        (\<lambda>l.
        let values = values\<lparr> longTokenUsd := l \<rparr> in
        Inr (values\<lparr> shortTokenUsd := marketTokenUsd values - longTokenUsd values \<rparr>))
      else if includeLongToken p then Inr (values\<lparr> longTokenUsd := marketTokenUsd values \<rparr>)
      else if includeShortToken p then Inr (values\<lparr> shortTokenUsd := marketTokenUsd values \<rparr>)
      else Inr values)"

text \<open>
  Lines 228-234, the redistribution of a negative price impact; \<open>totalDepositUsd\<close> is the
  variable reassigned at line 225.
\<close>

definition redistributeImpact :: "int \<Rightarrow> DepositAmounts \<Rightarrow> error + DepositAmounts" where
  "redistributeImpact totalDepositUsd values =
     (if swapPriceImpactDeltaUsd values < 0 \<and> totalDepositUsd > 0 then
        bindE (mulDiv (- swapPriceImpactDeltaUsd values) (longTokenUsd values) totalDepositUsd)
        (\<lambda>l.
        let values = values\<lparr> longTokenUsd := longTokenUsd values + l \<rparr> in
        bindE (mulDiv (- swapPriceImpactDeltaUsd values) (shortTokenUsd values) totalDepositUsd)
        (\<lambda>s. Inr (values\<lparr> shortTokenUsd := shortTokenUsd values + s \<rparr>)))
      else Inr values)"

text \<open>
  Lines 221-235, the redistribution of the fees and then of the impact; \<open>totalFee\<close> and
  \<open>totalDepositUsd\<close> are the variables of lines 217-218.
\<close>

definition redistributeFees :: "int \<Rightarrow> int \<Rightarrow> DepositAmounts \<Rightarrow> error + DepositAmounts" where
  "redistributeFees totalFee totalDepositUsd values =
     (if totalDepositUsd > 0 then
        bindE (mulDiv totalFee (longTokenUsd values) totalDepositUsd)
        (\<lambda>l.
        let values = values\<lparr> longTokenUsd := longTokenUsd values + l \<rparr> in
        bindE (mulDiv totalFee (shortTokenUsd values) totalDepositUsd)
        (\<lambda>s.
        let values = values\<lparr> shortTokenUsd := shortTokenUsd values + s \<rparr>;
            totalDepositUsd = longTokenUsd values + shortTokenUsd values
        in redistributeImpact totalDepositUsd values))
      else Inr values)"

text \<open>Lines 155-239.\<close>

definition depositByMarketToken :: "Env \<Rightarrow> DepositParams \<Rightarrow> error + DepositAmounts" where
  "depositByMarketToken env p =
     (let longTokenPrice = getMidPrice (prices (longToken p));
          shortTokenPrice = getMidPrice (prices (shortToken p));
          values = zeroValues
      in
      if DepositParams.marketTokenAmount p = 0 then Inr values
      else
        let values = values\<lparr> marketTokenAmount := DepositParams.marketTokenAmount p \<rparr> in
        bindE
          (case vaultInfo p of
             Some v \<Rightarrow>
               assertDefined (convertToUsd (DepositParams.marketTokenAmount p)
                 (decimals (indexToken v)) (minPrice (prices (indexToken v))))
           | None \<Rightarrow>
               Inr (marketTokenAmountToUsd env (marketInfo p) (marketToken p)
                 (DepositParams.marketTokenAmount p)))
        (\<lambda>mtUsd.
        let values = values\<lparr> marketTokenUsd := mtUsd \<rparr> in
        if isMarketTokenDeposit p \<and> vaultInfo p \<noteq> None then
          bindE (assertDefined
            (convertToTokenAmount (marketTokenUsd values) (decimals (marketToken p))
               (minPrice (prices (marketToken p)))))
          (\<lambda>a. Inr (values\<lparr> longTokenAmount := a \<rparr>))
        else
          bindE (assertDefined
            (convertToUsd (DepositParams.longTokenAmount p) (decimals (longToken p))
               longTokenPrice))
          (\<lambda>prevLongTokenUsd.
          bindE (assertDefined
            (convertToUsd (DepositParams.shortTokenAmount p) (decimals (shortToken p))
               shortTokenPrice))
          (\<lambda>prevShortTokenUsd.
          let prevSumUsd = prevLongTokenUsd + prevShortTokenUsd in
          bindE (splitUsd p prevLongTokenUsd prevShortTokenUsd prevSumUsd values)
          (\<lambda>values.
          let values = values\<lparr> swapPriceImpactDeltaUsd :=
                getPriceImpactForSwap env (marketInfo p) (longToken p) (shortToken p)
                  (longTokenUsd values) (shortTokenUsd values) \<rparr>;
              values =
                (if \<not> forShift p then
                   values\<lparr> swapFeeUsd := swapFeeUsd values +
                     getSwapFee env (marketInfo p) (marketTokenUsd values)
                       (swapPriceImpactDeltaUsd values > 0) \<rparr>
                 else values);
              values = values\<lparr> uiFeeUsd := uiFeeUsd values +
                applyFactor env (marketTokenUsd values) (uiFeeFactor p) \<rparr>;
              totalFee = swapFeeUsd values + uiFeeUsd values;
              totalDepositUsd = longTokenUsd values + shortTokenUsd values
          in
          bindE (redistributeFees totalFee totalDepositUsd values)
          (\<lambda>values.
          bindE (assertDefined
            (convertToTokenAmount (longTokenUsd values) (decimals (longToken p)) longTokenPrice))
          (\<lambda>la.
          let values = values\<lparr> longTokenAmount := la \<rparr> in
          bindE (assertDefined
            (convertToTokenAmount (shortTokenUsd values) (decimals (shortToken p))
               shortTokenPrice))
          (\<lambda>sa. Inr (values\<lparr> shortTokenAmount := sa \<rparr>)))))))))"

subsection \<open>The entry point\<close>

text \<open>
  \<^verbatim>\<open>getDepositAmounts\<close>, lines 9-242: the type of \<^verbatim>\<open>strategy\<close> has the two values
  that lines 56 and 155 test.
\<close>

definition getDepositAmounts :: "Env \<Rightarrow> DepositParams \<Rightarrow> error + DepositAmounts" where
  "getDepositAmounts env p =
     (case strategy p of
        byCollaterals \<Rightarrow> depositByCollaterals env p
      | byMarketToken \<Rightarrow> depositByMarketToken env p)"

subsection \<open>Steps that change the two USD shares only\<close>

text \<open>
  \<open>sameButUsd r values\<close>: the record \<open>r\<close> agrees with \<open>values\<close> on every field other than
  \<open>longTokenUsd\<close> and \<open>shortTokenUsd\<close>. It describes what the split and the two
  redistributions of the strategy byMarketToken leave alone.
\<close>

definition sameButUsd :: "DepositAmounts \<Rightarrow> DepositAmounts \<Rightarrow> bool" where
  "sameButUsd r values \<longleftrightarrow>
     DepositAmounts.longTokenAmount r = DepositAmounts.longTokenAmount values
     \<and> DepositAmounts.shortTokenAmount r = DepositAmounts.shortTokenAmount values
     \<and> marketTokenAmount r = marketTokenAmount values
     \<and> marketTokenUsd r = marketTokenUsd values
     \<and> swapFeeUsd r = swapFeeUsd values
     \<and> uiFeeUsd r = uiFeeUsd values
     \<and> swapPriceImpactDeltaUsd r = swapPriceImpactDeltaUsd values"

subsection \<open>Two records compared under a change of the UI fee factor\<close>

text \<open>
  \<open>feeOrdered a b\<close>: the records agree on the two token amounts, the two USD shares, the
  swap fee and the price impact; \<open>b\<close> has the UI fee that is not smaller and the market
  token amount that is not larger.
\<close>

definition feeOrdered :: "DepositAmounts \<Rightarrow> DepositAmounts \<Rightarrow> bool" where
  "feeOrdered a b \<longleftrightarrow>
     DepositAmounts.longTokenAmount a = DepositAmounts.longTokenAmount b
     \<and> longTokenUsd a = longTokenUsd b
     \<and> DepositAmounts.shortTokenAmount a = DepositAmounts.shortTokenAmount b
     \<and> shortTokenUsd a = shortTokenUsd b
     \<and> swapFeeUsd a = swapFeeUsd b
     \<and> swapPriceImpactDeltaUsd a = swapPriceImpactDeltaUsd b
     \<and> uiFeeUsd a \<le> uiFeeUsd b
     \<and> marketTokenAmount b \<le> marketTokenAmount a"

subsection \<open>A side that covers its fees\<close>


subsection \<open>A reference market for the examples\<close>

text \<open>
  Modelled from the spec: one instance of the collaborators, for evaluating the model at
  concrete inputs. Factors have 30 decimals. The market has no price impact ("zero pool
  imbalance"); an impact amount is the USD delta converted "to the output token's units
  at its price", with an impact pool that is never exhausted; market tokens are minted
  and valued "via the market's current mint price", here the maximum price of the market
  token.
\<close>

definition refEnv :: Env where
  "refEnv =
     \<lparr> PRECISION = 10 ^ 30,
       getPriceImpactForSwap = (\<lambda>mi tokenA tokenB usdDeltaTokenA usdDeltaTokenB. 0),
       applySwapImpactWithCap = (\<lambda>mi token priceImpactDeltaUsd.
         orZero (convertToTokenAmount priceImpactDeltaUsd (decimals token)
           (if priceImpactDeltaUsd > 0 then maxPrice (prices token)
            else minPrice (prices token)))),
       usdToMarketTokenAmount = (\<lambda>mi mt usdValue.
         orZero (convertToTokenAmount usdValue (decimals mt) (maxPrice (prices mt)))),
       marketTokenAmountToUsd = (\<lambda>mi mt amount.
         orZero (convertToUsd amount (decimals mt) (maxPrice (prices mt)))) \<rparr>"

text \<open>
  Tokens priced in USD with 30 decimals: a token of 18 decimals worth 1.00 USD has the
  price \<open>10 ^ 30\<close>, whatever its decimals.
\<close>

definition token18 :: "int \<Rightarrow> TokenData" where
  "token18 price = \<lparr> decimals = 18, prices = \<lparr> minPrice = price, maxPrice = price \<rparr> \<rparr>"

definition token6 :: "int \<Rightarrow> TokenData" where
  "token6 price = \<lparr> decimals = 6, prices = \<lparr> minPrice = price, maxPrice = price \<rparr> \<rparr>"

definition exMarket :: MarketInfo where
  "exMarket =
     \<lparr> longPoolAmount = 5000 * 10 ^ 18, shortPoolAmount = 5000 * 10 ^ 6,
       swapFeeFactorForPositiveImpact = 5 * 10 ^ 26,
       swapFeeFactorForNegativeImpact = 7 * 10 ^ 26 \<rparr>"

text \<open>
  A deposit of 1000 long tokens and 1000 short tokens, 1.00 USD each, with a UI fee of
  0.1 percent, into a market whose token is worth 1.00 USD.
\<close>

definition exParams :: DepositParams where
  "exParams =
     \<lparr> marketInfo = exMarket, marketToken = token18 (10 ^ 30),
       longToken = token18 (10 ^ 30), shortToken = token6 (10 ^ 30),
       longTokenAmount = 1000 * 10 ^ 18, shortTokenAmount = 1000 * 10 ^ 6,
       marketTokenAmount = 0, strategy = byCollaterals,
       includeLongToken = True, includeShortToken = True,
       uiFeeFactor = 10 ^ 27, forShift = False, isMarketTokenDeposit = False,
       vaultInfo = None \<rparr>"

section \<open>Properties\<close>

subsection \<open>Auxiliary facts\<close>

lemma bindE_Inr [simp]: "bindE (Inr x) f = f x"
  by (simp add: bindE_def)

lemma bindE_Inl [simp]: "bindE (Inl e) f = Inl e"
  by (simp add: bindE_def)

lemma assertDefined_Some [simp]: "assertDefined (Some x) = Inr x"
  by (simp add: assertDefined_def)

lemma assertDefined_None [simp]: "assertDefined None = Inl UndefinedValue"
  by (simp add: assertDefined_def)

lemma bindE_eq_Inr: "bindE m f = Inr r \<longleftrightarrow> (\<exists>x. m = Inr x \<and> f x = Inr r)"
  by (cases m) simp_all

lemma assertDefined_eq_Inr: "assertDefined v = Inr x \<longleftrightarrow> v = Some x"
  by (cases v) simp_all

lemma bigintDiv_pos: "0 \<le> a \<Longrightarrow> 0 < b \<Longrightarrow> bigintDiv a b = a div b"
  by (cases "a = 0") (simp_all add: bigintDiv_def)

lemma bigintDiv_neg: "a \<le> 0 \<Longrightarrow> 0 < b \<Longrightarrow> bigintDiv a b = - ((- a) div b)"
  by (cases "a = 0") (simp_all add: bigintDiv_def)

lemma bigintDiv_zero [simp]: "bigintDiv 0 b = 0"
  by (simp add: bigintDiv_def)

lemma bigintDiv_nonneg: "0 \<le> a \<Longrightarrow> 0 < b \<Longrightarrow> 0 \<le> bigintDiv a b"
  by (simp add: bigintDiv_pos pos_imp_zdiv_nonneg_iff)

lemma bigintDiv_nonpos: "a \<le> 0 \<Longrightarrow> 0 < b \<Longrightarrow> bigintDiv a b \<le> 0"
  by (simp add: bigintDiv_neg pos_imp_zdiv_nonneg_iff)

text \<open>Rounding toward zero is monotone in the dividend.\<close>

lemma bigintDiv_mono:
  assumes "0 < b" "a \<le> a'"
  shows "bigintDiv a b \<le> bigintDiv a' b"
proof (cases "0 \<le> a")
  case True
  with assms show ?thesis by (simp add: bigintDiv_pos zdiv_mono1)
next
  case False
  note neg = this
  show ?thesis
  proof (cases "0 \<le> a'")
    case True
    have "bigintDiv a b \<le> 0" using neg assms by (simp add: bigintDiv_nonpos)
    also have "0 \<le> bigintDiv a' b" using True assms by (simp add: bigintDiv_nonneg)
    finally show ?thesis .
  next
    case False
    have "(- a') div b \<le> (- a) div b" using assms by (simp add: zdiv_mono1)
    with neg False assms show ?thesis by (simp add: bigintDiv_neg)
  qed
qed

lemma bigintDiv_exact:
  assumes "b \<noteq> 0"
  shows "bigintDiv (q * b) b = q"
proof -
  have "\<bar>q * b\<bar> div \<bar>b\<bar> = \<bar>q\<bar>" using assms by (simp add: abs_mult)
  moreover have "sgn (q * b) * sgn b = sgn q" using assms
    by (simp add: sgn_mult mult.assoc)
  ultimately show ?thesis by (simp add: bigintDiv_def sgn_mult_abs)
qed

lemma convertToUsd_Some:
  "price \<noteq> 0 \<Longrightarrow> convertToUsd a d price = Some (bigintDiv (a * price) (10 ^ d))"
  by (simp add: convertToUsd_def)

lemma convertToTokenAmount_Some:
  "price \<noteq> 0 \<Longrightarrow> convertToTokenAmount u d price = Some (bigintDiv (u * 10 ^ d) price)"
  by (simp add: convertToTokenAmount_def)

subsection \<open>The zero-input short circuit\<close>

text \<open>
  Claim C9. In the strategy byCollaterals, when the long and the short amount are both
  zero, and in the strategy byMarketToken, when the market token amount is zero,
  \<open>getDepositAmounts\<close> returns the record whose nine fields are all zero, whatever the
  market, the tokens and the collaborators are.
\<close>

theorem zero_input_short_circuit:
  "(strategy p = byCollaterals \<and> DepositParams.longTokenAmount p = 0
      \<and> DepositParams.shortTokenAmount p = 0)
   \<or> (strategy p = byMarketToken \<and> DepositParams.marketTokenAmount p = 0)
   \<Longrightarrow> getDepositAmounts env p =
     Inr \<lparr> longTokenAmount = 0, longTokenUsd = 0, shortTokenAmount = 0, shortTokenUsd = 0,
           marketTokenAmount = 0, marketTokenUsd = 0, swapFeeUsd = 0, uiFeeUsd = 0,
           swapPriceImpactDeltaUsd = 0 \<rparr>"
  by (auto simp: getDepositAmounts_def depositByCollaterals_def depositByMarketToken_def
      zeroValues_def Let_def)

theorem zero_input_short_circuit_witness:
  "strategy (exParams\<lparr> DepositParams.longTokenAmount := 0, DepositParams.shortTokenAmount := 0 \<rparr>)
     = byCollaterals
   \<and> getDepositAmounts refEnv
       (exParams\<lparr> DepositParams.longTokenAmount := 0, DepositParams.shortTokenAmount := 0 \<rparr>) =
     Inr \<lparr> longTokenAmount = 0, longTokenUsd = 0, shortTokenAmount = 0, shortTokenUsd = 0,
           marketTokenAmount = 0, marketTokenUsd = 0, swapFeeUsd = 0, uiFeeUsd = 0,
           swapPriceImpactDeltaUsd = 0 \<rparr>"
  using zero_input_short_circuit
    [of "exParams\<lparr> DepositParams.longTokenAmount := 0, DepositParams.shortTokenAmount := 0 \<rparr>"
        refEnv]
  by (simp add: exParams_def)

subsection \<open>The per-side minting helper\<close>

text \<open>
  Claim C6. \<open>getMarketTokenAmountByCollateral\<close> converts the two fees to units of
  \<open>tokenIn\<close> at its minimum price and subtracts them from the amount. With a positive
  impact share it mints for the capped impact amount of \<open>tokenOut\<close>, valued at the
  maximum price of \<open>tokenOut\<close>, and adds the mint for the amount after fees, valued at the
  minimum price of \<open>tokenIn\<close>: the second summand does not depend on the impact. With an
  impact share that is negative or zero it adds the capped impact amount of \<open>tokenIn\<close> to
  the amount after fees and mints once, for that sum.
\<close>

theorem per_side_mint:
  "minPrice (prices tokenIn) \<noteq> 0 \<Longrightarrow>
   (0 < priceImpactDeltaUsd \<longrightarrow> maxPrice (prices tokenOut) \<noteq> 0) \<Longrightarrow>
   getMarketTokenAmountByCollateral env mi mt tokenIn tokenOut amount priceImpactDeltaUsd
       sideSwapFeeUsd sideUiFeeUsd =
     (let feeAmount = (\<lambda>usd. bigintDiv (usd * 10 ^ decimals tokenIn) (minPrice (prices tokenIn)));
          inputUsd = (\<lambda>a. bigintDiv (a * minPrice (prices tokenIn)) (10 ^ decimals tokenIn));
          amountInAfterFees = amount - feeAmount sideSwapFeeUsd - feeAmount sideUiFeeUsd
      in
      if 0 < priceImpactDeltaUsd then
        Inr (usdToMarketTokenAmount env mi mt
               (bigintDiv (applySwapImpactWithCap env mi tokenOut priceImpactDeltaUsd
                  * maxPrice (prices tokenOut)) (10 ^ decimals tokenOut))
             + usdToMarketTokenAmount env mi mt (inputUsd amountInAfterFees))
      else
        Inr (usdToMarketTokenAmount env mi mt
               (inputUsd (amountInAfterFees
                  + applySwapImpactWithCap env mi tokenIn priceImpactDeltaUsd))))"
  by (simp add: getMarketTokenAmountByCollateral_def Let_def convertToUsd_Some
      convertToTokenAmount_Some)

text \<open>
  1000 tokens with fees of 1 USD each: an impact of +5 USD mints 5 + 998 market tokens, an
  impact of -5 USD mints 993.
\<close>

theorem per_side_mint_witness:
  "minPrice (prices (token18 (10 ^ 30))) \<noteq> 0
   \<and> maxPrice (prices (token6 (10 ^ 30))) \<noteq> 0
   \<and> getMarketTokenAmountByCollateral refEnv exMarket (token18 (10 ^ 30)) (token18 (10 ^ 30))
         (token6 (10 ^ 30)) (1000 * 10 ^ 18) (5 * 10 ^ 30) (10 ^ 30) (10 ^ 30)
       = Inr (1003 * 10 ^ 18)
   \<and> getMarketTokenAmountByCollateral refEnv exMarket (token18 (10 ^ 30)) (token18 (10 ^ 30))
         (token6 (10 ^ 30)) (1000 * 10 ^ 18) (- 5 * 10 ^ 30) (10 ^ 30) (10 ^ 30)
       = Inr (993 * 10 ^ 18)"
proof -
  have h1: "minPrice (prices (token18 (10 ^ 30))) \<noteq> 0"
    by (simp add: token18_def)
  have h2: "maxPrice (prices (token6 (10 ^ 30))) \<noteq> 0"
    by (simp add: token6_def)
  have e1: "getMarketTokenAmountByCollateral refEnv exMarket (token18 (10 ^ 30))
      (token18 (10 ^ 30)) (token6 (10 ^ 30)) (1000 * 10 ^ 18) (5 * 10 ^ 30) (10 ^ 30) (10 ^ 30)
      = Inr (1003 * 10 ^ 18)"
    using per_side_mint [where tokenIn = "token18 (10 ^ 30)" and tokenOut = "token6 (10 ^ 30)"
        and priceImpactDeltaUsd = "5 * 10 ^ 30" and env = refEnv and mi = exMarket
        and mt = "token18 (10 ^ 30)" and amount = "1000 * 10 ^ 18"
        and sideSwapFeeUsd = "10 ^ 30" and sideUiFeeUsd = "10 ^ 30"] h1 h2
    by code_simp
  have e2: "getMarketTokenAmountByCollateral refEnv exMarket (token18 (10 ^ 30))
      (token18 (10 ^ 30)) (token6 (10 ^ 30)) (1000 * 10 ^ 18) (- 5 * 10 ^ 30) (10 ^ 30) (10 ^ 30)
      = Inr (993 * 10 ^ 18)"
    using per_side_mint [where tokenIn = "token18 (10 ^ 30)" and tokenOut = "token6 (10 ^ 30)"
        and priceImpactDeltaUsd = "- 5 * 10 ^ 30" and env = refEnv and mi = exMarket
        and mt = "token18 (10 ^ 30)" and amount = "1000 * 10 ^ 18"
        and sideSwapFeeUsd = "10 ^ 30" and sideUiFeeUsd = "10 ^ 30"] h1
    by code_simp
  show ?thesis using h1 h2 e1 e2 by blast
qed

subsection \<open>The deposit of market tokens into a vault\<close>

lemma getMidPrice_same: "getMidPrice \<lparr> minPrice = U, maxPrice = U \<rparr> = U"
  using bigintDiv_exact [of 2 U] by (simp add: getMidPrice_def mult_2_right)

lemma orZero_convertToTokenAmount_zero [simp]: "orZero (convertToTokenAmount 0 d price) = 0"
  by (simp add: orZero_def convertToTokenAmount_def)

lemma orZero_convertToUsd_zero [simp]: "orZero (convertToUsd 0 d price) = 0"
  by (simp add: orZero_def convertToUsd_def)

lemma convertToUsd_zero: "convertToUsd 0 d price = Some u \<Longrightarrow> u = 0"
  by (simp add: convertToUsd_def split: if_splits)

lemma vaultShortcut_result:
  assumes "strategy p = byCollaterals" "isMarketTokenDeposit p" "vaultInfo p = Some v"
    and "convertToUsd (DepositParams.longTokenAmount p) (decimals (longToken p))
           (getMidPrice (prices (longToken p))) = Some gmTokenUsd"
  shows "getDepositAmounts env p =
     (let glvTokenAmount = orZero (convertToTokenAmount gmTokenUsd (decimals (indexToken v))
            (minPrice (prices (indexToken v))))
      in Inr \<lparr> longTokenAmount = DepositParams.longTokenAmount p, longTokenUsd = gmTokenUsd,
           shortTokenAmount = 0, shortTokenUsd = 0,
           marketTokenAmount = glvTokenAmount,
           marketTokenUsd = orZero (convertToUsd glvTokenAmount (decimals (indexToken v))
             (minPrice (prices (indexToken v)))),
           swapFeeUsd = 0, uiFeeUsd = 0, swapPriceImpactDeltaUsd = 0 \<rparr>)"
proof (cases "DepositParams.longTokenAmount p = 0 \<and> DepositParams.shortTokenAmount p = 0")
  case True
  with assms(4) have "gmTokenUsd = 0" by (auto dest: convertToUsd_zero)
  with True assms(1) show ?thesis
    by (simp add: getDepositAmounts_def depositByCollaterals_def zeroValues_def Let_def)
next
  case False
  with assms show ?thesis
    by (auto simp: getDepositAmounts_def depositByCollaterals_def vaultShortcut_def
        zeroValues_def Let_def)
qed

lemma scenario_arith:
  assumes "0 < (U::int)"
  shows "bigintDiv (bigintDiv (100 * 10 ^ 18 * U) (10 ^ 18) * 10 ^ d) (2 * U) = 50 * 10 ^ d"
proof -
  have "bigintDiv (100 * 10 ^ 18 * U) (10 ^ 18) = 100 * U"
    using bigintDiv_exact [of "10 ^ 18" "100 * U"] by (simp add: mult.commute mult.left_commute)
  moreover have "bigintDiv (100 * U * 10 ^ d) (2 * U) = 50 * 10 ^ d"
    using bigintDiv_exact [of "2 * U" "50 * 10 ^ d"] assms
    by (simp add: mult.commute mult.left_commute)
  ultimately show ?thesis by simp
qed

text \<open>
  Claim C5. A byCollaterals call with \<open>isMarketTokenDeposit\<close> set and a vault present returns
  without calling any collaborator: the market token amount is the long (GM) amount
  valued in USD at the mid price of the GM token and converted to vault tokens at the
  minimum price of the vault's index token (zero where that conversion is undefined),
  and the two fees and the price impact are zero. With a GM price of 1.00 USD, written
  \<open>U\<close>, an index price of 2.00 USD and a deposit of \<open>100 * 10 ^ 18\<close> GM the amount is
  \<open>50 * 10 ^ vaultDecimals\<close>.
\<close>

theorem vault_shortcut:
  "strategy p = byCollaterals \<Longrightarrow> isMarketTokenDeposit p \<Longrightarrow> vaultInfo p = Some v \<Longrightarrow>
   (\<forall>gmTokenUsd.
      convertToUsd (DepositParams.longTokenAmount p) (decimals (longToken p))
        (getMidPrice (prices (longToken p))) = Some gmTokenUsd \<longrightarrow>
      getDepositAmounts env p =
        (let glvTokenAmount = orZero (convertToTokenAmount gmTokenUsd (decimals (indexToken v))
               (minPrice (prices (indexToken v))))
         in Inr \<lparr> longTokenAmount = DepositParams.longTokenAmount p, longTokenUsd = gmTokenUsd,
              shortTokenAmount = 0, shortTokenUsd = 0,
              marketTokenAmount = glvTokenAmount,
              marketTokenUsd = orZero (convertToUsd glvTokenAmount (decimals (indexToken v))
                (minPrice (prices (indexToken v)))),
              swapFeeUsd = 0, uiFeeUsd = 0, swapPriceImpactDeltaUsd = 0 \<rparr>))
   \<and> (\<forall>U. 0 < U \<and> decimals (longToken p) = 18
          \<and> prices (longToken p) = \<lparr> minPrice = U, maxPrice = U \<rparr>
          \<and> minPrice (prices (indexToken v)) = 2 * U
          \<and> DepositParams.longTokenAmount p = 100 * 10 ^ 18 \<longrightarrow>
        (\<exists>r. getDepositAmounts env p = Inr r
           \<and> marketTokenAmount r = 50 * 10 ^ decimals (indexToken v)
           \<and> swapFeeUsd r = 0 \<and> uiFeeUsd r = 0 \<and> swapPriceImpactDeltaUsd r = 0))"
proof (intro conjI allI impI)
  fix gmTokenUsd
  assume "strategy p = byCollaterals" "isMarketTokenDeposit p" "vaultInfo p = Some v"
    and "convertToUsd (DepositParams.longTokenAmount p) (decimals (longToken p))
        (getMidPrice (prices (longToken p))) = Some gmTokenUsd"
  then show "getDepositAmounts env p =
        (let glvTokenAmount = orZero (convertToTokenAmount gmTokenUsd (decimals (indexToken v))
               (minPrice (prices (indexToken v))))
         in Inr \<lparr> longTokenAmount = DepositParams.longTokenAmount p, longTokenUsd = gmTokenUsd,
              shortTokenAmount = 0, shortTokenUsd = 0,
              marketTokenAmount = glvTokenAmount,
              marketTokenUsd = orZero (convertToUsd glvTokenAmount (decimals (indexToken v))
                (minPrice (prices (indexToken v)))),
              swapFeeUsd = 0, uiFeeUsd = 0, swapPriceImpactDeltaUsd = 0 \<rparr>)"
    by (rule vaultShortcut_result)
next
  fix U :: int
  assume a: "strategy p = byCollaterals" "isMarketTokenDeposit p" "vaultInfo p = Some v"
    and s: "0 < U \<and> decimals (longToken p) = 18
          \<and> prices (longToken p) = \<lparr> minPrice = U, maxPrice = U \<rparr>
          \<and> minPrice (prices (indexToken v)) = 2 * U
          \<and> DepositParams.longTokenAmount p = 100 * 10 ^ 18"
  then have mid: "getMidPrice (prices (longToken p)) = U"
    by (simp add: getMidPrice_same)
  have usd: "convertToUsd (DepositParams.longTokenAmount p) (decimals (longToken p))
        (getMidPrice (prices (longToken p))) = Some (bigintDiv (100 * 10 ^ 18 * U) (10 ^ 18))"
    using s mid by (simp add: convertToUsd_def)
  have glv: "orZero (convertToTokenAmount (bigintDiv (100 * 10 ^ 18 * U) (10 ^ 18))
      (decimals (indexToken v)) (minPrice (prices (indexToken v))))
      = 50 * 10 ^ decimals (indexToken v)"
    using s scenario_arith [of U "decimals (indexToken v)"]
    by (simp add: convertToTokenAmount_def orZero_def)
  show "\<exists>r. getDepositAmounts env p = Inr r
           \<and> marketTokenAmount r = 50 * 10 ^ decimals (indexToken v)
           \<and> swapFeeUsd r = 0 \<and> uiFeeUsd r = 0 \<and> swapPriceImpactDeltaUsd r = 0"
    using vaultShortcut_result [OF a usd, of env] glv by (simp add: Let_def)
qed

theorem vault_shortcut_witness:
  "strategy (exParams\<lparr> DepositParams.longTokenAmount := 100 * 10 ^ 18,
       isMarketTokenDeposit := True,
       vaultInfo := Some \<lparr> indexToken = token18 (2 * 10 ^ 30) \<rparr> \<rparr>) = byCollaterals
   \<and> getDepositAmounts refEnv
        (exParams\<lparr> DepositParams.longTokenAmount := 100 * 10 ^ 18,
           isMarketTokenDeposit := True,
           vaultInfo := Some \<lparr> indexToken = token18 (2 * 10 ^ 30) \<rparr> \<rparr>)
       = Inr \<lparr> longTokenAmount = 100 * 10 ^ 18, longTokenUsd = 100 * 10 ^ 30,
               shortTokenAmount = 0, shortTokenUsd = 0,
               marketTokenAmount = 50 * 10 ^ 18, marketTokenUsd = 100 * 10 ^ 30,
               swapFeeUsd = 0, uiFeeUsd = 0, swapPriceImpactDeltaUsd = 0 \<rparr>"
proof -
  let ?v = "\<lparr> indexToken = token18 (2 * 10 ^ 30) \<rparr>"
  let ?p = "exParams\<lparr> DepositParams.longTokenAmount := 100 * 10 ^ 18,
       isMarketTokenDeposit := True, vaultInfo := Some ?v \<rparr>"
  have s: "strategy ?p = byCollaterals" by (simp add: exParams_def)
  have i: "isMarketTokenDeposit ?p" by simp
  have v: "vaultInfo ?p = Some ?v" by simp
  have u: "convertToUsd (DepositParams.longTokenAmount ?p) (decimals (longToken ?p))
      (getMidPrice (prices (longToken ?p))) = Some (100 * 10 ^ 30)"
    by code_simp
  have "getDepositAmounts refEnv ?p
       = Inr \<lparr> longTokenAmount = 100 * 10 ^ 18, longTokenUsd = 100 * 10 ^ 30,
               shortTokenAmount = 0, shortTokenUsd = 0,
               marketTokenAmount = 50 * 10 ^ 18, marketTokenUsd = 100 * 10 ^ 30,
               swapFeeUsd = 0, uiFeeUsd = 0, swapPriceImpactDeltaUsd = 0 \<rparr>"
    using vault_shortcut [OF s i v, of refEnv, THEN conjunct1, rule_format, OF u]
    by code_simp
  with s show ?thesis by blast
qed

subsection \<open>The remainder of a division\<close>

lemma bigintDiv_remainder:
  assumes "0 < b"
  shows "\<bar>a - bigintDiv a b * b\<bar> < b"
proof (cases "0 \<le> a")
  case True
  then have "a - bigintDiv a b * b = a mod b"
    using assms by (simp add: bigintDiv_pos minus_div_mult_eq_mod)
  then show ?thesis using assms by simp
next
  case False
  then have "a - bigintDiv a b * b = - ((- a) mod b)"
    using assms by (simp add: bigintDiv_neg minus_div_mult_eq_mod [symmetric])
  then show ?thesis using assms by simp
qed

lemma bigintDiv_dvd:
  assumes "b \<noteq> 0" "b dvd a"
  shows "bigintDiv a b * b = a"
proof -
  from assms(2) obtain q where "a = b * q" by (rule dvdE)
  then have "a = q * b" by (simp add: mult.commute)
  then show ?thesis using assms(1) by (simp add: bigintDiv_exact)
qed

subsection \<open>Divisions by a total\<close>

text \<open>
  Claim C1 says that every division by a total is guarded against a zero divisor. The
  divisions by \<open>totalDepositUsd\<close> and by \<open>prevSumUsd\<close> are (lines 93, 116, 192, 221 and
  228); the two divisions by \<open>totalPoolUsd\<close> at lines 190-191 are not. What holds of the
  code is the opposite of the claim there: a byMarketToken call for a shift into a market
  whose two pools are empty, with a market token amount that is not zero and prices that
  are not zero, divides by zero and throws a \<^verbatim>\<open>RangeError\<close> instead of skipping the split.
\<close>

theorem shift_into_empty_pool:
  "strategy p = byMarketToken \<Longrightarrow> forShift p \<Longrightarrow> DepositParams.marketTokenAmount p \<noteq> 0 \<Longrightarrow>
   \<not> (isMarketTokenDeposit p \<and> vaultInfo p \<noteq> None) \<Longrightarrow>
   longPoolAmount (marketInfo p) = 0 \<Longrightarrow> shortPoolAmount (marketInfo p) = 0 \<Longrightarrow>
   getMidPrice (prices (longToken p)) \<noteq> 0 \<Longrightarrow> getMidPrice (prices (shortToken p)) \<noteq> 0 \<Longrightarrow>
   maxPrice (prices (longToken p)) \<noteq> 0 \<Longrightarrow> maxPrice (prices (shortToken p)) \<noteq> 0 \<Longrightarrow>
   (\<forall>v. vaultInfo p = Some v \<longrightarrow> minPrice (prices (indexToken v)) \<noteq> 0) \<Longrightarrow>
   getDepositAmounts env p = Inl RangeError"
  by (cases "vaultInfo p")
    (simp_all add: getDepositAmounts_def depositByMarketToken_def splitUsd_def mulDiv_def
      Let_def convertToUsd_Some)

theorem shift_into_empty_pool_witness:
  "getDepositAmounts refEnv
     (exParams\<lparr> strategy := byMarketToken, DepositParams.marketTokenAmount := 2000 * 10 ^ 18,
        forShift := True,
        marketInfo := exMarket\<lparr> longPoolAmount := 0, shortPoolAmount := 0 \<rparr> \<rparr>)
   = Inl RangeError"
proof -
  let ?p = "exParams\<lparr> strategy := byMarketToken,
        DepositParams.marketTokenAmount := 2000 * 10 ^ 18, forShift := True,
        marketInfo := exMarket\<lparr> longPoolAmount := 0, shortPoolAmount := 0 \<rparr> \<rparr>"
  have mid: "getMidPrice (prices (longToken ?p)) \<noteq> 0" "getMidPrice (prices (shortToken ?p)) \<noteq> 0"
    by code_simp+
  have mx: "maxPrice (prices (longToken ?p)) \<noteq> 0" "maxPrice (prices (shortToken ?p)) \<noteq> 0"
    by code_simp+
  show ?thesis
    by (rule shift_into_empty_pool [OF _ _ _ _ _ _ mid mx]) (simp_all add: exParams_def)
qed

subsection \<open>The shape of a result\<close>

lemma mulDiv_eq_Inr: "mulDiv x y z = Inr q \<longleftrightarrow> z \<noteq> 0 \<and> q = bigintDiv (x * y) z"
  by (auto simp: mulDiv_def)

lemma splitUsd_other:
  assumes "splitUsd p L S T values = Inr r"
  shows "sameButUsd r values"
  using assms unfolding splitUsd_def Let_def sameButUsd_def
  by (auto simp: bindE_eq_Inr assertDefined_eq_Inr mulDiv_eq_Inr split: if_splits)

lemma redistributeImpact_other:
  assumes "redistributeImpact T values = Inr r"
  shows "sameButUsd r values"
  using assms unfolding redistributeImpact_def Let_def sameButUsd_def
  by (auto simp: bindE_eq_Inr mulDiv_eq_Inr split: if_splits)

lemma redistributeFees_other:
  assumes "redistributeFees F T values = Inr r"
  shows "sameButUsd r values"
  using assms unfolding redistributeFees_def redistributeImpact_def Let_def sameButUsd_def
  by (auto simp: bindE_eq_Inr mulDiv_eq_Inr split: if_splits)

lemma sameButUsd_zeroValues:
  assumes "sameButUsd sp (zeroValues\<lparr> marketTokenAmount := a, marketTokenUsd := M \<rparr>)"
  shows "sp = \<lparr> longTokenAmount = 0, longTokenUsd = longTokenUsd sp, shortTokenAmount = 0,
               shortTokenUsd = shortTokenUsd sp, marketTokenAmount = a, marketTokenUsd = M,
               swapFeeUsd = 0, uiFeeUsd = 0, swapPriceImpactDeltaUsd = 0 \<rparr>"
  using assms by (cases sp) (simp add: sameButUsd_def zeroValues_def)

lemma depositByMarketToken_shape:
  assumes res: "depositByMarketToken env p = Inr r"
    and nz: "DepositParams.marketTokenAmount p \<noteq> 0"
    and ns: "\<not> (isMarketTokenDeposit p \<and> vaultInfo p \<noteq> None)"
  shows "\<exists>M prevL prevS lu su adj la sa.
      (case vaultInfo p of
         Some v \<Rightarrow> convertToUsd (DepositParams.marketTokenAmount p) (decimals (indexToken v))
                     (minPrice (prices (indexToken v))) = Some M
       | None \<Rightarrow> M = marketTokenAmountToUsd env (marketInfo p) (marketToken p)
                     (DepositParams.marketTokenAmount p))
      \<and> convertToUsd (DepositParams.longTokenAmount p) (decimals (longToken p))
            (getMidPrice (prices (longToken p))) = Some prevL
      \<and> convertToUsd (DepositParams.shortTokenAmount p) (decimals (shortToken p))
            (getMidPrice (prices (shortToken p))) = Some prevS
      \<and> splitUsd p prevL prevS (prevL + prevS)
            (zeroValues\<lparr> marketTokenAmount := DepositParams.marketTokenAmount p,
               marketTokenUsd := M \<rparr>)
          = Inr \<lparr> longTokenAmount = 0, longTokenUsd = lu, shortTokenAmount = 0,
                  shortTokenUsd = su, marketTokenAmount = DepositParams.marketTokenAmount p,
                  marketTokenUsd = M, swapFeeUsd = 0, uiFeeUsd = 0,
                  swapPriceImpactDeltaUsd = 0 \<rparr>
      \<and> redistributeFees
            ((if forShift p then 0
              else getSwapFee env (marketInfo p) M
                (0 < getPriceImpactForSwap env (marketInfo p) (longToken p) (shortToken p) lu su))
             + applyFactor env M (uiFeeFactor p))
            (lu + su)
            \<lparr> longTokenAmount = 0, longTokenUsd = lu, shortTokenAmount = 0,
              shortTokenUsd = su, marketTokenAmount = DepositParams.marketTokenAmount p,
              marketTokenUsd = M,
              swapFeeUsd =
                (if forShift p then 0
                 else getSwapFee env (marketInfo p) M
                   (0 < getPriceImpactForSwap env (marketInfo p) (longToken p) (shortToken p)
                          lu su)),
              uiFeeUsd = applyFactor env M (uiFeeFactor p),
              swapPriceImpactDeltaUsd =
                getPriceImpactForSwap env (marketInfo p) (longToken p) (shortToken p) lu su \<rparr>
          = Inr adj
      \<and> convertToTokenAmount (longTokenUsd adj) (decimals (longToken p))
            (getMidPrice (prices (longToken p))) = Some la
      \<and> convertToTokenAmount (shortTokenUsd adj) (decimals (shortToken p))
            (getMidPrice (prices (shortToken p))) = Some sa
      \<and> r = adj\<lparr> longTokenAmount := la, shortTokenAmount := sa \<rparr>"
proof -
  from res nz ns obtain M prevL prevS sp where
    M: "(case vaultInfo p of
         Some v \<Rightarrow> convertToUsd (DepositParams.marketTokenAmount p) (decimals (indexToken v))
                     (minPrice (prices (indexToken v))) = Some M
       | None \<Rightarrow> M = marketTokenAmountToUsd env (marketInfo p) (marketToken p)
                     (DepositParams.marketTokenAmount p))"
    and L: "convertToUsd (DepositParams.longTokenAmount p) (decimals (longToken p))
            (getMidPrice (prices (longToken p))) = Some prevL"
    and S: "convertToUsd (DepositParams.shortTokenAmount p) (decimals (shortToken p))
            (getMidPrice (prices (shortToken p))) = Some prevS"
    and sp: "splitUsd p prevL prevS (prevL + prevS)
            (zeroValues\<lparr> marketTokenAmount := DepositParams.marketTokenAmount p,
               marketTokenUsd := M \<rparr>) = Inr sp"
    unfolding depositByMarketToken_def Let_def
    by (cases "vaultInfo p") (auto simp: bindE_eq_Inr assertDefined_eq_Inr)
  define lu where "lu = longTokenUsd sp"
  define su where "su = shortTokenUsd sp"
  have sp_eq: "sp = \<lparr> longTokenAmount = 0, longTokenUsd = lu, shortTokenAmount = 0,
               shortTokenUsd = su, marketTokenAmount = DepositParams.marketTokenAmount p,
               marketTokenUsd = M, swapFeeUsd = 0, uiFeeUsd = 0,
               swapPriceImpactDeltaUsd = 0 \<rparr>"
    unfolding lu_def su_def by (rule sameButUsd_zeroValues [OF splitUsd_other [OF sp]])
  note sp' = sp [unfolded sp_eq]
  show ?thesis
    using res nz ns M L S sp' unfolding depositByMarketToken_def Let_def
    by (cases "vaultInfo p")
      (auto simp: bindE_eq_Inr assertDefined_eq_Inr)
qed

lemma wrapVault_marketTokenUsd [simp]: "marketTokenUsd (wrapVault p values) = marketTokenUsd values"
  by (simp add: wrapVault_def Let_def split: option.splits)

lemma wrapVault_marketTokenAmount:
  "marketTokenAmount (wrapVault p values) =
     (case vaultInfo p of
        None \<Rightarrow> marketTokenAmount values
      | Some v \<Rightarrow>
          (case Option.bind
                  (if isMarketTokenDeposit p then
                     convertToUsd (DepositAmounts.longTokenAmount values) (decimals (longToken p))
                       (minPrice (prices (longToken p)))
                   else Some (marketTokenUsd values))
                  (\<lambda>u. convertToTokenAmount u (decimals (indexToken v))
                     (maxPrice (prices (indexToken v)))) of
             None \<Rightarrow> marketTokenAmount values
           | Some a \<Rightarrow> if 0 < a then a else marketTokenAmount values))"
  by (simp add: wrapVault_def Let_def split: option.splits)

lemma depositByCollaterals_shape:
  assumes "depositByCollaterals env p = Inr r"
    and "\<not> (DepositParams.longTokenAmount p = 0 \<and> DepositParams.shortTokenAmount p = 0)"
    and "\<not> (isMarketTokenDeposit p \<and> vaultInfo p \<noteq> None)"
  shows "\<exists>values mtUsd.
      convertToUsd (marketTokenAmount values) (decimals (marketToken p))
        (minPrice (prices (marketToken p))) = Some mtUsd
      \<and> r = wrapVault p (values\<lparr> marketTokenUsd := mtUsd \<rparr>)"
proof -
  have none: "(if isMarketTokenDeposit p then vaultInfo p else None) = None"
    using assms(3) by auto
  show ?thesis
    using assms(1,2) unfolding depositByCollaterals_def Let_def none
    by (auto simp: bindE_eq_Inr assertDefined_eq_Inr)
qed

lemma wrapVault_other:
  "DepositAmounts.longTokenAmount (wrapVault p vals) = DepositAmounts.longTokenAmount vals
   \<and> longTokenUsd (wrapVault p vals) = longTokenUsd vals
   \<and> DepositAmounts.shortTokenAmount (wrapVault p vals) = DepositAmounts.shortTokenAmount vals
   \<and> shortTokenUsd (wrapVault p vals) = shortTokenUsd vals
   \<and> swapFeeUsd (wrapVault p vals) = swapFeeUsd vals"
  by (simp add: wrapVault_def Let_def split: option.splits)

lemma convertToUsd_defined: "convertToUsd a d price = Some u \<Longrightarrow> price \<noteq> 0"
  by (simp add: convertToUsd_def split: if_splits)

subsection \<open>The redistribution of the fees and of the price impact\<close>

lemma redistributeFees_closed:
  "redistributeFees totalFee totalDepositUsd vals =
     (let longAfterFees =
            (if 0 < totalDepositUsd then
               longTokenUsd vals + bigintDiv (totalFee * longTokenUsd vals) totalDepositUsd
             else longTokenUsd vals);
          shortAfterFees =
            (if 0 < totalDepositUsd then
               shortTokenUsd vals + bigintDiv (totalFee * shortTokenUsd vals) totalDepositUsd
             else shortTokenUsd vals);
          impactShared = (0 < totalDepositUsd \<and> swapPriceImpactDeltaUsd vals < 0
            \<and> 0 < longAfterFees + shortAfterFees)
      in Inr (vals\<lparr>
           longTokenUsd :=
             (if impactShared then
                longAfterFees + bigintDiv (- swapPriceImpactDeltaUsd vals * longAfterFees)
                  (longAfterFees + shortAfterFees)
              else longAfterFees),
           shortTokenUsd :=
             (if impactShared then
                shortAfterFees + bigintDiv (- swapPriceImpactDeltaUsd vals * shortAfterFees)
                  (longAfterFees + shortAfterFees)
              else shortAfterFees) \<rparr>))"
proof (cases "0 < totalDepositUsd")
  case False
  then show ?thesis by (simp add: redistributeFees_def Let_def)
next
  case True
  note T = this
  define lf where "lf = longTokenUsd vals + bigintDiv (totalFee * longTokenUsd vals) totalDepositUsd"
  define sf where "sf = shortTokenUsd vals + bigintDiv (totalFee * shortTokenUsd vals) totalDepositUsd"
  have fees: "redistributeFees totalFee totalDepositUsd vals =
      redistributeImpact (lf + sf) (vals\<lparr> longTokenUsd := lf, shortTokenUsd := sf \<rparr>)"
    using T by (simp add: redistributeFees_def mulDiv_def Let_def lf_def sf_def)
  show ?thesis
  proof (cases "swapPriceImpactDeltaUsd vals < 0 \<and> 0 < lf + sf")
    case True
    then have "redistributeImpact (lf + sf) (vals\<lparr> longTokenUsd := lf, shortTokenUsd := sf \<rparr>) =
        Inr (vals\<lparr> longTokenUsd := lf + bigintDiv (- swapPriceImpactDeltaUsd vals * lf) (lf + sf),
                  shortTokenUsd := sf + bigintDiv (- swapPriceImpactDeltaUsd vals * sf) (lf + sf) \<rparr>)"
      by (simp add: redistributeImpact_def mulDiv_def Let_def)
    with fees T True show ?thesis by (simp add: Let_def lf_def [symmetric] sf_def [symmetric])
  next
    case False
    then have "redistributeImpact (lf + sf) (vals\<lparr> longTokenUsd := lf, shortTokenUsd := sf \<rparr>) =
        Inr (vals\<lparr> longTokenUsd := lf, shortTokenUsd := sf \<rparr>)"
      by (auto simp: redistributeImpact_def)
    with fees T False show ?thesis
      by (auto simp: Let_def lf_def [symmetric] sf_def [symmetric])
  qed
qed

lemma byMarketToken_closed_form:
  assumes st: "strategy p = byMarketToken"
    and nz: "DepositParams.marketTokenAmount p \<noteq> 0"
    and ns: "\<not> (isMarketTokenDeposit p \<and> vaultInfo p \<noteq> None)"
    and M: "case vaultInfo p of
        None \<Rightarrow> M = marketTokenAmountToUsd env (marketInfo p) (marketToken p)
                  (DepositParams.marketTokenAmount p)
      | Some v \<Rightarrow> convertToUsd (DepositParams.marketTokenAmount p) (decimals (indexToken v))
                  (minPrice (prices (indexToken v))) = Some M"
    and L: "convertToUsd (DepositParams.longTokenAmount p) (decimals (longToken p))
        (getMidPrice (prices (longToken p))) = Some L"
    and S: "convertToUsd (DepositParams.shortTokenAmount p) (decimals (shortToken p))
        (getMidPrice (prices (shortToken p))) = Some S"
    and sp: "splitUsd p L S (L + S)
        (zeroValues\<lparr> marketTokenAmount := DepositParams.marketTokenAmount p,
           marketTokenUsd := M \<rparr>) = Inr sp"
  shows "getDepositAmounts env p =
    (let lu = longTokenUsd sp;
         su = shortTokenUsd sp;
         impact = getPriceImpactForSwap env (marketInfo p) (longToken p) (shortToken p) lu su;
         swapFee = (if forShift p then 0 else getSwapFee env (marketInfo p) M (0 < impact));
         uiFee = applyFactor env M (uiFeeFactor p);
         totalFee = swapFee + uiFee;
         longAfterFees = (if 0 < lu + su then lu + bigintDiv (totalFee * lu) (lu + su) else lu);
         shortAfterFees = (if 0 < lu + su then su + bigintDiv (totalFee * su) (lu + su) else su);
         impactShared = (0 < lu + su \<and> impact < 0 \<and> 0 < longAfterFees + shortAfterFees);
         longUsd =
           (if impactShared then
              longAfterFees + bigintDiv (- impact * longAfterFees) (longAfterFees + shortAfterFees)
            else longAfterFees);
         shortUsd =
           (if impactShared then
              shortAfterFees + bigintDiv (- impact * shortAfterFees) (longAfterFees + shortAfterFees)
            else shortAfterFees)
     in Inr \<lparr> longTokenAmount =
                bigintDiv (longUsd * 10 ^ decimals (longToken p))
                  (getMidPrice (prices (longToken p))),
              longTokenUsd = longUsd,
              shortTokenAmount =
                bigintDiv (shortUsd * 10 ^ decimals (shortToken p))
                  (getMidPrice (prices (shortToken p))),
              shortTokenUsd = shortUsd,
              marketTokenAmount = DepositParams.marketTokenAmount p,
              marketTokenUsd = M,
              swapFeeUsd = swapFee,
              uiFeeUsd = uiFee,
              swapPriceImpactDeltaUsd = impact \<rparr>)"
proof -
  define lu where "lu = longTokenUsd sp"
  define su where "su = shortTokenUsd sp"
  define impact where
    "impact = getPriceImpactForSwap env (marketInfo p) (longToken p) (shortToken p) lu su"
  define swapFee where
    "swapFee = (if forShift p then 0 else getSwapFee env (marketInfo p) M (0 < impact))"
  define uiFee where "uiFee = applyFactor env M (uiFeeFactor p)"
  define rec where "rec = \<lparr> longTokenAmount = 0, longTokenUsd = lu, shortTokenAmount = 0,
               shortTokenUsd = su, marketTokenAmount = DepositParams.marketTokenAmount p,
               marketTokenUsd = M, swapFeeUsd = swapFee, uiFeeUsd = uiFee,
               swapPriceImpactDeltaUsd = impact \<rparr>"
  have sp_eq: "sp = \<lparr> longTokenAmount = 0, longTokenUsd = lu, shortTokenAmount = 0,
               shortTokenUsd = su, marketTokenAmount = DepositParams.marketTokenAmount p,
               marketTokenUsd = M, swapFeeUsd = 0, uiFeeUsd = 0,
               swapPriceImpactDeltaUsd = 0 \<rparr>"
    unfolding lu_def su_def by (rule sameButUsd_zeroValues [OF splitUsd_other [OF sp]])
  have midl: "getMidPrice (prices (longToken p)) \<noteq> 0"
    and mids: "getMidPrice (prices (shortToken p)) \<noteq> 0"
    using L S by (auto dest: convertToUsd_defined)
  have Mv: "(case vaultInfo p of
          Some v \<Rightarrow> assertDefined (convertToUsd (DepositParams.marketTokenAmount p)
                 (decimals (indexToken v)) (minPrice (prices (indexToken v))))
        | None \<Rightarrow> Inr (marketTokenAmountToUsd env (marketInfo p) (marketToken p)
                  (DepositParams.marketTokenAmount p))) = Inr M"
    using M by (cases "vaultInfo p") simp_all
  have nsc: "(isMarketTokenDeposit p \<and> vaultInfo p \<noteq> None) = False" using ns by simp
  have sp': "splitUsd p L S (L + S)
        (zeroValues\<lparr> marketTokenAmount := DepositParams.marketTokenAmount p,
           marketTokenUsd := M \<rparr>) = Inr \<lparr> longTokenAmount = 0, longTokenUsd = lu, shortTokenAmount = 0,
               shortTokenUsd = su, marketTokenAmount = DepositParams.marketTokenAmount p,
               marketTokenUsd = M, swapFeeUsd = 0, uiFeeUsd = 0,
               swapPriceImpactDeltaUsd = 0 \<rparr>"
    using sp sp_eq by simp
  have step: "depositByMarketToken env p =
      bindE (redistributeFees (swapFee + uiFee) (lu + su) rec)
        (\<lambda>vals. Inr (vals\<lparr>
           longTokenAmount := bigintDiv (longTokenUsd vals * 10 ^ decimals (longToken p))
             (getMidPrice (prices (longToken p))),
           shortTokenAmount := bigintDiv (shortTokenUsd vals * 10 ^ decimals (shortToken p))
             (getMidPrice (prices (shortToken p))) \<rparr>))"
    unfolding depositByMarketToken_def Let_def Mv nsc
    using nz
    by (cases "forShift p")
      (simp_all add: L S sp' rec_def swapFee_def uiFee_def impact_def
        convertToTokenAmount_Some midl mids)
  have "getDepositAmounts env p = depositByMarketToken env p"
    using st by (simp add: getDepositAmounts_def)
  then show ?thesis
    unfolding step redistributeFees_closed Let_def rec_def swapFee_def uiFee_def impact_def
      lu_def su_def
    by (simp only: bindE_Inr DepositAmounts.simps)
qed

text \<open>
  Claim C7. Take a byMarketToken call past the zero-input short circuit and the vault
  shortcut, whose conversions are defined (\<open>M\<close>, \<open>L\<close> and \<open>S\<close> are the values of lines
  161-166 and 177-178) and whose split returns \<open>sp\<close>. It returns the record below. The
  fees are added to the two shares of the split in proportion (lines 221-223). The step
  after that adds to each share its part of the magnitude of the impact only when the
  impact is negative (and the totals of lines 221 and 228 are positive). When the impact
  is positive or zero, \<open>longTokenUsd\<close> and \<open>shortTokenUsd\<close> are the shares after fees as
  they are, and the token amounts are their conversions at the mid prices.
\<close>

theorem impact_redistribution:
  assumes st: "strategy p = byMarketToken"
    and nz: "DepositParams.marketTokenAmount p \<noteq> 0"
    and ns: "\<not> (isMarketTokenDeposit p \<and> vaultInfo p \<noteq> None)"
    and M: "case vaultInfo p of
        None \<Rightarrow> M = marketTokenAmountToUsd env (marketInfo p) (marketToken p)
                  (DepositParams.marketTokenAmount p)
      | Some v \<Rightarrow> convertToUsd (DepositParams.marketTokenAmount p) (decimals (indexToken v))
                  (minPrice (prices (indexToken v))) = Some M"
    and L: "convertToUsd (DepositParams.longTokenAmount p) (decimals (longToken p))
        (getMidPrice (prices (longToken p))) = Some L"
    and S: "convertToUsd (DepositParams.shortTokenAmount p) (decimals (shortToken p))
        (getMidPrice (prices (shortToken p))) = Some S"
    and sp: "splitUsd p L S (L + S)
        (zeroValues\<lparr> marketTokenAmount := DepositParams.marketTokenAmount p,
           marketTokenUsd := M \<rparr>) = Inr sp"
  shows "getDepositAmounts env p =
    (let lu = longTokenUsd sp;
         su = shortTokenUsd sp;
         impact = getPriceImpactForSwap env (marketInfo p) (longToken p) (shortToken p) lu su;
         swapFee = (if forShift p then 0 else getSwapFee env (marketInfo p) M (0 < impact));
         uiFee = applyFactor env M (uiFeeFactor p);
         totalFee = swapFee + uiFee;
         longAfterFees = (if 0 < lu + su then lu + bigintDiv (totalFee * lu) (lu + su) else lu);
         shortAfterFees = (if 0 < lu + su then su + bigintDiv (totalFee * su) (lu + su) else su);
         impactShared = (0 < lu + su \<and> impact < 0 \<and> 0 < longAfterFees + shortAfterFees);
         longUsd =
           (if impactShared then
              longAfterFees + bigintDiv (- impact * longAfterFees) (longAfterFees + shortAfterFees)
            else longAfterFees);
         shortUsd =
           (if impactShared then
              shortAfterFees + bigintDiv (- impact * shortAfterFees) (longAfterFees + shortAfterFees)
            else shortAfterFees)
     in Inr \<lparr> longTokenAmount =
                bigintDiv (longUsd * 10 ^ decimals (longToken p))
                  (getMidPrice (prices (longToken p))),
              longTokenUsd = longUsd,
              shortTokenAmount =
                bigintDiv (shortUsd * 10 ^ decimals (shortToken p))
                  (getMidPrice (prices (shortToken p))),
              shortTokenUsd = shortUsd,
              marketTokenAmount = DepositParams.marketTokenAmount p,
              marketTokenUsd = M,
              swapFeeUsd = swapFee,
              uiFeeUsd = uiFee,
              swapPriceImpactDeltaUsd = impact \<rparr>)"
  by (rule byMarketToken_closed_form [OF st nz ns M L S sp])

text \<open>
  1000 market tokens for holdings of 1000 USD on each side: with an impact of -10 USD each
  share after fees, 500.85 USD, receives 5 USD; with an impact of +10 USD the shares after
  fees, 500.75 USD, are returned.
\<close>

theorem impact_redistribution_witness:
  "getDepositAmounts
     (refEnv\<lparr> getPriceImpactForSwap := (\<lambda>mi tokenA tokenB a b. - 10 * 10 ^ 30) \<rparr>)
     (exParams\<lparr> strategy := byMarketToken, DepositParams.marketTokenAmount := 1000 * 10 ^ 18 \<rparr>)
   = Inr \<lparr> longTokenAmount = 50585 * 10 ^ 16, longTokenUsd = 50585 * 10 ^ 28,
           shortTokenAmount = 50585 * 10 ^ 4, shortTokenUsd = 50585 * 10 ^ 28,
           marketTokenAmount = 1000 * 10 ^ 18, marketTokenUsd = 1000 * 10 ^ 30,
           swapFeeUsd = 7 * 10 ^ 29, uiFeeUsd = 10 ^ 30,
           swapPriceImpactDeltaUsd = - 10 * 10 ^ 30 \<rparr>
   \<and> getDepositAmounts
     (refEnv\<lparr> getPriceImpactForSwap := (\<lambda>mi tokenA tokenB a b. 10 * 10 ^ 30) \<rparr>)
     (exParams\<lparr> strategy := byMarketToken, DepositParams.marketTokenAmount := 1000 * 10 ^ 18 \<rparr>)
   = Inr \<lparr> longTokenAmount = 50075 * 10 ^ 16, longTokenUsd = 50075 * 10 ^ 28,
           shortTokenAmount = 50075 * 10 ^ 4, shortTokenUsd = 50075 * 10 ^ 28,
           marketTokenAmount = 1000 * 10 ^ 18, marketTokenUsd = 1000 * 10 ^ 30,
           swapFeeUsd = 5 * 10 ^ 29, uiFeeUsd = 10 ^ 30,
           swapPriceImpactDeltaUsd = 10 * 10 ^ 30 \<rparr>"
proof -
  let ?p = "exParams\<lparr> strategy := byMarketToken,
    DepositParams.marketTokenAmount := 1000 * 10 ^ 18 \<rparr>"
  let ?neg = "refEnv\<lparr> getPriceImpactForSwap := (\<lambda>mi tokenA tokenB a b. - 10 * 10 ^ 30) \<rparr>"
  let ?pos = "refEnv\<lparr> getPriceImpactForSwap := (\<lambda>mi tokenA tokenB a b. 10 * 10 ^ 30) \<rparr>"
  let ?sp = "zeroValues\<lparr> marketTokenAmount := 1000 * 10 ^ 18, marketTokenUsd := 1000 * 10 ^ 30,
    longTokenUsd := 500 * 10 ^ 30, shortTokenUsd := 500 * 10 ^ 30 \<rparr>"
  have st: "strategy ?p = byMarketToken" by simp
  have nz: "DepositParams.marketTokenAmount ?p \<noteq> 0" by simp
  have ns: "\<not> (isMarketTokenDeposit ?p \<and> vaultInfo ?p \<noteq> None)" by (simp add: exParams_def)
  have Mn: "case vaultInfo ?p of
        None \<Rightarrow> 1000 * 10 ^ 30 = marketTokenAmountToUsd ?neg (marketInfo ?p) (marketToken ?p)
                  (DepositParams.marketTokenAmount ?p)
      | Some v \<Rightarrow> convertToUsd (DepositParams.marketTokenAmount ?p) (decimals (indexToken v))
                  (minPrice (prices (indexToken v))) = Some (1000 * 10 ^ 30)"
    by code_simp
  have Mp: "case vaultInfo ?p of
        None \<Rightarrow> 1000 * 10 ^ 30 = marketTokenAmountToUsd ?pos (marketInfo ?p) (marketToken ?p)
                  (DepositParams.marketTokenAmount ?p)
      | Some v \<Rightarrow> convertToUsd (DepositParams.marketTokenAmount ?p) (decimals (indexToken v))
                  (minPrice (prices (indexToken v))) = Some (1000 * 10 ^ 30)"
    by code_simp
  have L: "convertToUsd (DepositParams.longTokenAmount ?p) (decimals (longToken ?p))
        (getMidPrice (prices (longToken ?p))) = Some (1000 * 10 ^ 30)"
    by code_simp
  have S: "convertToUsd (DepositParams.shortTokenAmount ?p) (decimals (shortToken ?p))
        (getMidPrice (prices (shortToken ?p))) = Some (1000 * 10 ^ 30)"
    by code_simp
  have sp: "splitUsd ?p (1000 * 10 ^ 30) (1000 * 10 ^ 30) (1000 * 10 ^ 30 + 1000 * 10 ^ 30)
        (zeroValues\<lparr> marketTokenAmount := DepositParams.marketTokenAmount ?p,
           marketTokenUsd := 1000 * 10 ^ 30 \<rparr>) = Inr ?sp"
    by code_simp
  have n: "getDepositAmounts ?neg ?p
   = Inr \<lparr> longTokenAmount = 50585 * 10 ^ 16, longTokenUsd = 50585 * 10 ^ 28,
           shortTokenAmount = 50585 * 10 ^ 4, shortTokenUsd = 50585 * 10 ^ 28,
           marketTokenAmount = 1000 * 10 ^ 18, marketTokenUsd = 1000 * 10 ^ 30,
           swapFeeUsd = 7 * 10 ^ 29, uiFeeUsd = 10 ^ 30,
           swapPriceImpactDeltaUsd = - 10 * 10 ^ 30 \<rparr>"
    unfolding impact_redistribution [OF st nz ns Mn L S sp] by code_simp
  have q: "getDepositAmounts ?pos ?p
   = Inr \<lparr> longTokenAmount = 50075 * 10 ^ 16, longTokenUsd = 50075 * 10 ^ 28,
           shortTokenAmount = 50075 * 10 ^ 4, shortTokenUsd = 50075 * 10 ^ 28,
           marketTokenAmount = 1000 * 10 ^ 18, marketTokenUsd = 1000 * 10 ^ 30,
           swapFeeUsd = 5 * 10 ^ 29, uiFeeUsd = 10 ^ 30,
           swapPriceImpactDeltaUsd = 10 * 10 ^ 30 \<rparr>"
    unfolding impact_redistribution [OF st nz ns Mp L S sp] by code_simp
  from n q show ?thesis by (rule conjI)
qed

subsection \<open>The proportional split\<close>

text \<open>
  Claim C8, as amended. Take a byMarketToken call that is not a shift and includes both
  sides, past the zero-input short circuit and the vault shortcut, with the market token
  value \<open>M\<close> of lines 161-166 and the previous holdings valued at the mid prices, \<open>L\<close>
  and \<open>S\<close> of lines 177-178, with \<open>L + S > 0\<close>. The split of lines 193-194 gives the
  long share \<open>lu = M * L / (L + S)\<close> rounded toward zero and the short share
  \<open>su = M - lu\<close>. The cross products \<open>su * L\<close> and \<open>lu * S\<close> differ by less than
  \<open>L + S\<close>; they are equal, which is the ratio \<open>L / S\<close> of the claim, exactly when
  \<open>L + S\<close> divides \<open>M * L\<close>. The call returns the record that the redistribution of the
  fees and of the impact computes from these two shares.
\<close>

theorem proportional_split:
  assumes st: "strategy p = byMarketToken"
    and nf: "\<not> forShift p"
    and il: "includeLongToken p"
    and isT: "includeShortToken p"
    and nz: "DepositParams.marketTokenAmount p \<noteq> 0"
    and ns: "\<not> (isMarketTokenDeposit p \<and> vaultInfo p \<noteq> None)"
    and M: "case vaultInfo p of
        None \<Rightarrow> M = marketTokenAmountToUsd env (marketInfo p) (marketToken p)
                  (DepositParams.marketTokenAmount p)
      | Some v \<Rightarrow> convertToUsd (DepositParams.marketTokenAmount p) (decimals (indexToken v))
                  (minPrice (prices (indexToken v))) = Some M"
    and L: "convertToUsd (DepositParams.longTokenAmount p) (decimals (longToken p))
        (getMidPrice (prices (longToken p))) = Some L"
    and S: "convertToUsd (DepositParams.shortTokenAmount p) (decimals (shortToken p))
        (getMidPrice (prices (shortToken p))) = Some S"
    and pos: "0 < L + S"
  shows
    "(let lu = bigintDiv (M * L) (L + S);
          su = M - lu
      in
      splitUsd p L S (L + S)
          (zeroValues\<lparr> marketTokenAmount := DepositParams.marketTokenAmount p,
             marketTokenUsd := M \<rparr>)
        = Inr \<lparr> longTokenAmount = 0, longTokenUsd = lu, shortTokenAmount = 0,
                shortTokenUsd = su, marketTokenAmount = DepositParams.marketTokenAmount p,
                marketTokenUsd = M, swapFeeUsd = 0, uiFeeUsd = 0,
                swapPriceImpactDeltaUsd = 0 \<rparr>
      \<and> \<bar>su * L - lu * S\<bar> < L + S
      \<and> (lu * S = su * L \<longleftrightarrow> (L + S) dvd M * L)
      \<and> getDepositAmounts env p =
         (let impact =
                getPriceImpactForSwap env (marketInfo p) (longToken p) (shortToken p) lu su;
              swapFee = getSwapFee env (marketInfo p) M (0 < impact);
              uiFee = applyFactor env M (uiFeeFactor p);
              totalFee = swapFee + uiFee;
              longAfterFees =
                (if 0 < lu + su then lu + bigintDiv (totalFee * lu) (lu + su) else lu);
              shortAfterFees =
                (if 0 < lu + su then su + bigintDiv (totalFee * su) (lu + su) else su);
              impactShared = (0 < lu + su \<and> impact < 0 \<and> 0 < longAfterFees + shortAfterFees);
              longUsd =
                (if impactShared then
                   longAfterFees
                     + bigintDiv (- impact * longAfterFees) (longAfterFees + shortAfterFees)
                 else longAfterFees);
              shortUsd =
                (if impactShared then
                   shortAfterFees
                     + bigintDiv (- impact * shortAfterFees) (longAfterFees + shortAfterFees)
                 else shortAfterFees)
          in Inr \<lparr> longTokenAmount =
                     bigintDiv (longUsd * 10 ^ decimals (longToken p))
                       (getMidPrice (prices (longToken p))),
                   longTokenUsd = longUsd,
                   shortTokenAmount =
                     bigintDiv (shortUsd * 10 ^ decimals (shortToken p))
                       (getMidPrice (prices (shortToken p))),
                   shortTokenUsd = shortUsd,
                   marketTokenAmount = DepositParams.marketTokenAmount p,
                   marketTokenUsd = M,
                   swapFeeUsd = swapFee,
                   uiFeeUsd = uiFee,
                   swapPriceImpactDeltaUsd = impact \<rparr>))"
proof -
  define lu where "lu = bigintDiv (M * L) (L + S)"
  define su where "su = M - lu"
  define sp where "sp = \<lparr> longTokenAmount = 0, longTokenUsd = lu, shortTokenAmount = 0,
                shortTokenUsd = su, marketTokenAmount = DepositParams.marketTokenAmount p,
                marketTokenUsd = M, swapFeeUsd = 0, uiFeeUsd = 0,
                swapPriceImpactDeltaUsd = 0 \<rparr>"
  have split: "splitUsd p L S (L + S)
          (zeroValues\<lparr> marketTokenAmount := DepositParams.marketTokenAmount p,
             marketTokenUsd := M \<rparr>) = Inr sp"
    using nf il isT pos
    by (simp add: splitUsd_def mulDiv_def Let_def sp_def lu_def su_def zeroValues_def)
  have eq: "su * L - lu * S = M * L - lu * (L + S)"
    by (simp add: su_def algebra_simps)
  have bound: "\<bar>su * L - lu * S\<bar> < L + S"
    unfolding eq unfolding lu_def using bigintDiv_remainder [OF pos, of "M * L"] by simp
  have exact: "lu * S = su * L \<longleftrightarrow> (L + S) dvd M * L"
  proof
    assume "lu * S = su * L"
    with eq have "M * L = lu * (L + S)" by simp
    then show "(L + S) dvd M * L" by simp
  next
    assume d: "(L + S) dvd M * L"
    have "lu * (L + S) = M * L"
      unfolding lu_def using bigintDiv_dvd [OF _ d] pos by simp
    with eq show "lu * S = su * L" by simp
  qed
  have call: "getDepositAmounts env p =
         (let impact =
                getPriceImpactForSwap env (marketInfo p) (longToken p) (shortToken p) lu su;
              swapFee = getSwapFee env (marketInfo p) M (0 < impact);
              uiFee = applyFactor env M (uiFeeFactor p);
              totalFee = swapFee + uiFee;
              longAfterFees =
                (if 0 < lu + su then lu + bigintDiv (totalFee * lu) (lu + su) else lu);
              shortAfterFees =
                (if 0 < lu + su then su + bigintDiv (totalFee * su) (lu + su) else su);
              impactShared = (0 < lu + su \<and> impact < 0 \<and> 0 < longAfterFees + shortAfterFees);
              longUsd =
                (if impactShared then
                   longAfterFees
                     + bigintDiv (- impact * longAfterFees) (longAfterFees + shortAfterFees)
                 else longAfterFees);
              shortUsd =
                (if impactShared then
                   shortAfterFees
                     + bigintDiv (- impact * shortAfterFees) (longAfterFees + shortAfterFees)
                 else shortAfterFees)
          in Inr \<lparr> longTokenAmount =
                     bigintDiv (longUsd * 10 ^ decimals (longToken p))
                       (getMidPrice (prices (longToken p))),
                   longTokenUsd = longUsd,
                   shortTokenAmount =
                     bigintDiv (shortUsd * 10 ^ decimals (shortToken p))
                       (getMidPrice (prices (shortToken p))),
                   shortTokenUsd = shortUsd,
                   marketTokenAmount = DepositParams.marketTokenAmount p,
                   marketTokenUsd = M,
                   swapFeeUsd = swapFee,
                   uiFeeUsd = uiFee,
                   swapPriceImpactDeltaUsd = impact \<rparr>)"
    unfolding byMarketToken_closed_form [OF st nz ns M L S split] Let_def
    using nf by (simp only: sp_def DepositAmounts.simps if_False)
  show ?thesis
    unfolding Let_def lu_def [symmetric] su_def [symmetric]
    using split bound exact call unfolding sp_def Let_def by (intro conjI)
qed

text \<open>
  10 market tokens for holdings of 1 USD and 3 USD: the shares are 2.5 USD and 7.5 USD, in
  the ratio 1 : 3.
\<close>

theorem proportional_split_witness:
  "convertToUsd (10 ^ 18) 18 (getMidPrice (prices (token18 (10 ^ 30)))) = Some (10 ^ 30)
   \<and> convertToUsd (3 * 10 ^ 6) 6 (getMidPrice (prices (token6 (10 ^ 30)))) = Some (3 * 10 ^ 30)
   \<and> splitUsd
        (exParams\<lparr> strategy := byMarketToken, DepositParams.marketTokenAmount := 10 * 10 ^ 18,
           DepositParams.longTokenAmount := 10 ^ 18,
           DepositParams.shortTokenAmount := 3 * 10 ^ 6 \<rparr>)
        (10 ^ 30) (3 * 10 ^ 30) (10 ^ 30 + 3 * 10 ^ 30)
        (zeroValues\<lparr> marketTokenAmount := 10 * 10 ^ 18, marketTokenUsd := 10 * 10 ^ 30 \<rparr>)
      = Inr \<lparr> longTokenAmount = 0, longTokenUsd = 25 * 10 ^ 29, shortTokenAmount = 0,
              shortTokenUsd = 75 * 10 ^ 29, marketTokenAmount = 10 * 10 ^ 18,
              marketTokenUsd = 10 * 10 ^ 30, swapFeeUsd = 0, uiFeeUsd = 0,
              swapPriceImpactDeltaUsd = 0 \<rparr>
   \<and> (25 * 10 ^ 29) * (3 * 10 ^ 30) = (75 * 10 ^ 29) * (10 ^ 30 :: int)
   \<and> getDepositAmounts refEnv
        (exParams\<lparr> strategy := byMarketToken, DepositParams.marketTokenAmount := 10 * 10 ^ 18,
           DepositParams.longTokenAmount := 10 ^ 18,
           DepositParams.shortTokenAmount := 3 * 10 ^ 6 \<rparr>)
      = Inr \<lparr> longTokenAmount = 250425 * 10 ^ 13, longTokenUsd = 250425 * 10 ^ 25,
              shortTokenAmount = 7512750, shortTokenUsd = 751275 * 10 ^ 25,
              marketTokenAmount = 10 * 10 ^ 18, marketTokenUsd = 10 * 10 ^ 30,
              swapFeeUsd = 7 * 10 ^ 27, uiFeeUsd = 10 ^ 28, swapPriceImpactDeltaUsd = 0 \<rparr>"
proof -
  let ?p = "exParams\<lparr> strategy := byMarketToken,
    DepositParams.marketTokenAmount := 10 * 10 ^ 18,
    DepositParams.longTokenAmount := 10 ^ 18, DepositParams.shortTokenAmount := 3 * 10 ^ 6 \<rparr>"
  have st: "strategy ?p = byMarketToken" by simp
  have nf: "\<not> forShift ?p" by (simp add: exParams_def)
  have il: "includeLongToken ?p" by (simp add: exParams_def)
  have isT: "includeShortToken ?p" by (simp add: exParams_def)
  have nz: "DepositParams.marketTokenAmount ?p \<noteq> 0" by simp
  have ns: "\<not> (isMarketTokenDeposit ?p \<and> vaultInfo ?p \<noteq> None)" by (simp add: exParams_def)
  have M: "case vaultInfo ?p of
        None \<Rightarrow> 10 * 10 ^ 30 = marketTokenAmountToUsd refEnv (marketInfo ?p) (marketToken ?p)
                  (DepositParams.marketTokenAmount ?p)
      | Some v \<Rightarrow> convertToUsd (DepositParams.marketTokenAmount ?p) (decimals (indexToken v))
                  (minPrice (prices (indexToken v))) = Some (10 * 10 ^ 30)"
    by code_simp
  have L: "convertToUsd (DepositParams.longTokenAmount ?p) (decimals (longToken ?p))
        (getMidPrice (prices (longToken ?p))) = Some (10 ^ 30)"
    by code_simp
  have S: "convertToUsd (DepositParams.shortTokenAmount ?p) (decimals (shortToken ?p))
        (getMidPrice (prices (shortToken ?p))) = Some (3 * 10 ^ 30)"
    by code_simp
  have pos: "(0::int) < 10 ^ 30 + 3 * 10 ^ 30" by simp
  have L': "convertToUsd (10 ^ 18) 18 (getMidPrice (prices (token18 (10 ^ 30)))) = Some (10 ^ 30)"
    by code_simp
  have S': "convertToUsd (3 * 10 ^ 6) 6 (getMidPrice (prices (token6 (10 ^ 30))))
      = Some (3 * 10 ^ 30)"
    by code_simp
  note t = proportional_split [OF st nf il isT nz ns M L S pos, unfolded Let_def]
  have e1: "splitUsd ?p (10 ^ 30) (3 * 10 ^ 30) (10 ^ 30 + 3 * 10 ^ 30)
        (zeroValues\<lparr> marketTokenAmount := 10 * 10 ^ 18, marketTokenUsd := 10 * 10 ^ 30 \<rparr>)
      = Inr \<lparr> longTokenAmount = 0, longTokenUsd = 25 * 10 ^ 29, shortTokenAmount = 0,
              shortTokenUsd = 75 * 10 ^ 29, marketTokenAmount = 10 * 10 ^ 18,
              marketTokenUsd = 10 * 10 ^ 30, swapFeeUsd = 0, uiFeeUsd = 0,
              swapPriceImpactDeltaUsd = 0 \<rparr>"
    using t [THEN conjunct1] by code_simp
  have e2: "(25 * 10 ^ 29) * (3 * 10 ^ 30) = (75 * 10 ^ 29) * (10 ^ 30 :: int)"
    by simp
  have e3: "getDepositAmounts refEnv ?p
      = Inr \<lparr> longTokenAmount = 250425 * 10 ^ 13, longTokenUsd = 250425 * 10 ^ 25,
              shortTokenAmount = 7512750, shortTokenUsd = 751275 * 10 ^ 25,
              marketTokenAmount = 10 * 10 ^ 18, marketTokenUsd = 10 * 10 ^ 30,
              swapFeeUsd = 7 * 10 ^ 27, uiFeeUsd = 10 ^ 28, swapPriceImpactDeltaUsd = 0 \<rparr>"
    unfolding t [THEN conjunct2, THEN conjunct2, THEN conjunct2] by code_simp
  from e1 e2 e3 L' S' show ?thesis by blast
qed

text \<open>
  The claim as stated fails: 10 market tokens for holdings of 1 USD and 2 USD give a long
  share of 3.33... USD rounded down and a short share of 6.66... USD rounded up.
\<close>

theorem proportional_split_counterexample:
  "convertToUsd (10 ^ 18) 18 (getMidPrice (prices (token18 (10 ^ 30)))) = Some (10 ^ 30)
   \<and> convertToUsd (2 * 10 ^ 6) 6 (getMidPrice (prices (token6 (10 ^ 30)))) = Some (2 * 10 ^ 30)
   \<and> marketTokenAmountToUsd refEnv exMarket (token18 (10 ^ 30)) (10 * 10 ^ 18) = 10 * 10 ^ 30
   \<and> splitUsd
        (exParams\<lparr> strategy := byMarketToken, DepositParams.marketTokenAmount := 10 * 10 ^ 18,
           DepositParams.longTokenAmount := 10 ^ 18,
           DepositParams.shortTokenAmount := 2 * 10 ^ 6 \<rparr>)
        (10 ^ 30) (2 * 10 ^ 30) (10 ^ 30 + 2 * 10 ^ 30)
        (zeroValues\<lparr> marketTokenAmount := 10 * 10 ^ 18, marketTokenUsd := 10 * 10 ^ 30 \<rparr>)
      = Inr (zeroValues\<lparr> marketTokenAmount := 10 * 10 ^ 18, marketTokenUsd := 10 * 10 ^ 30,
               longTokenUsd := 3333333333333333333333333333333,
               shortTokenUsd := 6666666666666666666666666666667 \<rparr>)
   \<and> 3333333333333333333333333333333 * (2 * 10 ^ 30)
      \<noteq> 6666666666666666666666666666667 * (10 ^ 30 :: int)"
  by code_simp

subsection \<open>No side included\<close>

text \<open>
  Claim C10, as amended. A byMarketToken call with a positive market token amount that is
  not a shift, has no vault and includes neither side returns zero for the two token
  amounts and the two USD shares, while the swap fee and the UI fee are computed from the
  whole \<open>marketTokenUsd\<close>: the redistribution of lines 221-235 is skipped because
  \<open>totalDepositUsd\<close> is zero. A fee is the value times the factor divided by the
  precision and rounded down, so for a non-negative value and factor it is not negative,
  and it is positive exactly when the product reaches the precision.
\<close>

theorem no_side_included:
  "strategy p = byMarketToken \<Longrightarrow> 0 < DepositParams.marketTokenAmount p \<Longrightarrow> \<not> forShift p \<Longrightarrow>
   vaultInfo p = None \<Longrightarrow> \<not> includeLongToken p \<Longrightarrow> \<not> includeShortToken p \<Longrightarrow>
   getMidPrice (prices (longToken p)) \<noteq> 0 \<Longrightarrow> getMidPrice (prices (shortToken p)) \<noteq> 0 \<Longrightarrow>
   (let mtUsd = marketTokenAmountToUsd env (marketInfo p) (marketToken p)
          (DepositParams.marketTokenAmount p);
        impact = getPriceImpactForSwap env (marketInfo p) (longToken p) (shortToken p) 0 0
    in
    getDepositAmounts env p =
      Inr \<lparr> longTokenAmount = 0, longTokenUsd = 0, shortTokenAmount = 0, shortTokenUsd = 0,
            marketTokenAmount = DepositParams.marketTokenAmount p, marketTokenUsd = mtUsd,
            swapFeeUsd = getSwapFee env (marketInfo p) mtUsd (0 < impact),
            uiFeeUsd = applyFactor env mtUsd (uiFeeFactor p),
            swapPriceImpactDeltaUsd = impact \<rparr>
    \<and> (\<forall>factor. 0 < PRECISION env \<and> 0 \<le> mtUsd \<and> 0 \<le> factor \<longrightarrow>
          0 \<le> applyFactor env mtUsd factor
          \<and> (0 < applyFactor env mtUsd factor \<longleftrightarrow> PRECISION env \<le> mtUsd * factor)))"
proof -
  assume a: "strategy p = byMarketToken" "0 < DepositParams.marketTokenAmount p" "\<not> forShift p"
    "vaultInfo p = None" "\<not> includeLongToken p" "\<not> includeShortToken p"
    "getMidPrice (prices (longToken p)) \<noteq> 0" "getMidPrice (prices (shortToken p)) \<noteq> 0"
  have res: "getDepositAmounts env p =
      Inr \<lparr> longTokenAmount = 0, longTokenUsd = 0, shortTokenAmount = 0, shortTokenUsd = 0,
            marketTokenAmount = DepositParams.marketTokenAmount p,
            marketTokenUsd = marketTokenAmountToUsd env (marketInfo p) (marketToken p)
              (DepositParams.marketTokenAmount p),
            swapFeeUsd = getSwapFee env (marketInfo p)
              (marketTokenAmountToUsd env (marketInfo p) (marketToken p)
                (DepositParams.marketTokenAmount p))
              (0 < getPriceImpactForSwap env (marketInfo p) (longToken p) (shortToken p) 0 0),
            uiFeeUsd = applyFactor env
              (marketTokenAmountToUsd env (marketInfo p) (marketToken p)
                (DepositParams.marketTokenAmount p)) (uiFeeFactor p),
            swapPriceImpactDeltaUsd =
              getPriceImpactForSwap env (marketInfo p) (longToken p) (shortToken p) 0 0 \<rparr>"
    using a
    by (simp add: getDepositAmounts_def depositByMarketToken_def splitUsd_def
        redistributeFees_def zeroValues_def Let_def convertToUsd_Some convertToTokenAmount_Some)
  have fee: "0 \<le> applyFactor env m f \<and> (0 < applyFactor env m f \<longleftrightarrow> PRECISION env \<le> m * f)"
    if "0 < PRECISION env" "0 \<le> m" "0 \<le> f" for m f
  proof -
    have "0 \<le> m * f" using that by simp
    then have "applyFactor env m f = (m * f) div PRECISION env"
      using that by (simp add: applyFactor_def bigintDiv_pos)
    then show ?thesis
      using that \<open>0 \<le> m * f\<close> by (simp add: pos_imp_zdiv_nonneg_iff pos_imp_zdiv_pos_iff)
  qed
  show ?thesis using res fee by (simp add: Let_def)
qed

theorem no_side_included_witness:
  "strategy (exParams\<lparr> strategy := byMarketToken,
       DepositParams.marketTokenAmount := 100 * 10 ^ 18,
       includeLongToken := False, includeShortToken := False \<rparr>) = byMarketToken
   \<and> getDepositAmounts refEnv
        (exParams\<lparr> strategy := byMarketToken,
           DepositParams.marketTokenAmount := 100 * 10 ^ 18,
           includeLongToken := False, includeShortToken := False \<rparr>)
       = Inr \<lparr> longTokenAmount = 0, longTokenUsd = 0, shortTokenAmount = 0, shortTokenUsd = 0,
               marketTokenAmount = 100 * 10 ^ 18, marketTokenUsd = 100 * 10 ^ 30,
               swapFeeUsd = 7 * 10 ^ 28, uiFeeUsd = 10 ^ 29, swapPriceImpactDeltaUsd = 0 \<rparr>"
proof -
  let ?p = "exParams\<lparr> strategy := byMarketToken,
       DepositParams.marketTokenAmount := 100 * 10 ^ 18,
       includeLongToken := False, includeShortToken := False \<rparr>"
  have h: "strategy ?p = byMarketToken" "0 < DepositParams.marketTokenAmount ?p"
    "\<not> forShift ?p" "vaultInfo ?p = None" "\<not> includeLongToken ?p" "\<not> includeShortToken ?p"
    by (simp_all add: exParams_def)
  have m: "getMidPrice (prices (longToken ?p)) \<noteq> 0" "getMidPrice (prices (shortToken ?p)) \<noteq> 0"
    by code_simp+
  note t = no_side_included [OF h m, of refEnv]
  have e: "getDepositAmounts refEnv ?p
       = Inr \<lparr> longTokenAmount = 0, longTokenUsd = 0, shortTokenAmount = 0, shortTokenUsd = 0,
               marketTokenAmount = 100 * 10 ^ 18, marketTokenUsd = 100 * 10 ^ 30,
               swapFeeUsd = 7 * 10 ^ 28, uiFeeUsd = 10 ^ 29, swapPriceImpactDeltaUsd = 0 \<rparr>"
    by code_simp
  from t h(1) e show ?thesis by blast
qed

theorem no_side_included_counterexample:
  "getDepositAmounts refEnv
     (exParams\<lparr> strategy := byMarketToken, DepositParams.marketTokenAmount := 10 ^ 17,
        includeLongToken := False, includeShortToken := False, uiFeeFactor := 1 \<rparr>)
   = Inr \<lparr> longTokenAmount = 0, longTokenUsd = 0, shortTokenAmount = 0, shortTokenUsd = 0,
           marketTokenAmount = 10 ^ 17, marketTokenUsd = 10 ^ 29,
           swapFeeUsd = 7 * 10 ^ 25, uiFeeUsd = 0, swapPriceImpactDeltaUsd = 0 \<rparr>"
  by code_simp

subsection \<open>The value of the market token amount\<close>

text \<open>
  Claim C3, as amended. Outside the shortcut for a deposit of market tokens into a vault,
  \<open>marketTokenUsd\<close> is the value of a market token amount at the price leg of the path.
  In the strategy byCollaterals it is \<open>convertToUsd\<close> of the minted amount at the decimals
  and the minimum price of the market token; the minted amount is \<open>marketTokenAmount\<close>,
  unless a vault is present and the conversion of \<open>marketTokenUsd\<close> to vault tokens at
  the maximum index price is positive: then \<open>marketTokenAmount\<close> is that vault token
  amount and \<open>marketTokenUsd\<close> is not recomputed. In the strategy byMarketToken it is
  \<open>convertToUsd\<close> of \<open>marketTokenAmount\<close> at the decimals and the minimum price of the
  vault's index token, or \<open>marketTokenAmountToUsd\<close> of it when there is no vault. After
  the zero-input short circuit both fields are zero.
\<close>

theorem marketTokenUsd_recomputable:
  "getDepositAmounts env p = Inr r \<Longrightarrow> \<not> (isMarketTokenDeposit p \<and> vaultInfo p \<noteq> None) \<Longrightarrow>
   (strategy p = byCollaterals
      \<and> \<not> (DepositParams.longTokenAmount p = 0 \<and> DepositParams.shortTokenAmount p = 0) \<longrightarrow>
      (\<exists>minted.
         convertToUsd minted (decimals (marketToken p)) (minPrice (prices (marketToken p)))
           = Some (marketTokenUsd r)
         \<and> (case vaultInfo p of
              None \<Rightarrow> marketTokenAmount r = minted
            | Some v \<Rightarrow>
                (case convertToTokenAmount (marketTokenUsd r) (decimals (indexToken v))
                        (maxPrice (prices (indexToken v))) of
                   None \<Rightarrow> marketTokenAmount r = minted
                 | Some glv \<Rightarrow> marketTokenAmount r = (if 0 < glv then glv else minted)))))
   \<and> (strategy p = byMarketToken \<and> DepositParams.marketTokenAmount p \<noteq> 0 \<longrightarrow>
        marketTokenAmount r = DepositParams.marketTokenAmount p
        \<and> (case vaultInfo p of
             None \<Rightarrow> marketTokenUsd r =
               marketTokenAmountToUsd env (marketInfo p) (marketToken p) (marketTokenAmount r)
           | Some v \<Rightarrow>
               convertToUsd (marketTokenAmount r) (decimals (indexToken v))
                 (minPrice (prices (indexToken v))) = Some (marketTokenUsd r)))
   \<and> ((strategy p = byCollaterals \<and> DepositParams.longTokenAmount p = 0
          \<and> DepositParams.shortTokenAmount p = 0)
        \<or> (strategy p = byMarketToken \<and> DepositParams.marketTokenAmount p = 0) \<longrightarrow>
        marketTokenAmount r = 0 \<and> marketTokenUsd r = 0)"
proof (intro conjI impI)
  assume res: "getDepositAmounts env p = Inr r"
    and ns: "\<not> (isMarketTokenDeposit p \<and> vaultInfo p \<noteq> None)"
    and c: "strategy p = byCollaterals
      \<and> \<not> (DepositParams.longTokenAmount p = 0 \<and> DepositParams.shortTokenAmount p = 0)"
  from res c have "depositByCollaterals env p = Inr r" by (simp add: getDepositAmounts_def)
  from depositByCollaterals_shape [OF this _ ns] c obtain vals mtUsd where
    u: "convertToUsd (marketTokenAmount vals) (decimals (marketToken p))
        (minPrice (prices (marketToken p))) = Some mtUsd"
    and r: "r = wrapVault p (vals\<lparr> marketTokenUsd := mtUsd \<rparr>)"
    by blast
  have "marketTokenUsd r = mtUsd" using r by simp
  moreover have "case vaultInfo p of
              None \<Rightarrow> marketTokenAmount r = marketTokenAmount vals
            | Some v \<Rightarrow>
                (case convertToTokenAmount mtUsd (decimals (indexToken v))
                        (maxPrice (prices (indexToken v))) of
                   None \<Rightarrow> marketTokenAmount r = marketTokenAmount vals
                 | Some glv \<Rightarrow>
                     marketTokenAmount r = (if 0 < glv then glv else marketTokenAmount vals))"
    using ns unfolding r wrapVault_marketTokenAmount
    by (auto split: option.splits)
  ultimately show "\<exists>minted.
         convertToUsd minted (decimals (marketToken p)) (minPrice (prices (marketToken p)))
           = Some (marketTokenUsd r)
         \<and> (case vaultInfo p of
              None \<Rightarrow> marketTokenAmount r = minted
            | Some v \<Rightarrow>
                (case convertToTokenAmount (marketTokenUsd r) (decimals (indexToken v))
                        (maxPrice (prices (indexToken v))) of
                   None \<Rightarrow> marketTokenAmount r = minted
                 | Some glv \<Rightarrow> marketTokenAmount r = (if 0 < glv then glv else minted)))"
    using u by (intro exI [of _ "marketTokenAmount vals"]) (auto split: option.splits)
next
  assume res: "getDepositAmounts env p = Inr r"
    and ns: "\<not> (isMarketTokenDeposit p \<and> vaultInfo p \<noteq> None)"
    and c: "strategy p = byMarketToken \<and> DepositParams.marketTokenAmount p \<noteq> 0"
  from res c have "depositByMarketToken env p = Inr r" by (simp add: getDepositAmounts_def)
  from depositByMarketToken_shape [OF this _ ns] c obtain M lu su F sf uf im adj la sa where
    M: "(case vaultInfo p of
         Some v \<Rightarrow> convertToUsd (DepositParams.marketTokenAmount p) (decimals (indexToken v))
                     (minPrice (prices (indexToken v))) = Some M
       | None \<Rightarrow> M = marketTokenAmountToUsd env (marketInfo p) (marketToken p)
                     (DepositParams.marketTokenAmount p))"
    and adj: "redistributeFees F (lu + su)
            \<lparr> longTokenAmount = 0, longTokenUsd = lu, shortTokenAmount = 0,
              shortTokenUsd = su, marketTokenAmount = DepositParams.marketTokenAmount p,
              marketTokenUsd = M, swapFeeUsd = sf, uiFeeUsd = uf,
              swapPriceImpactDeltaUsd = im \<rparr> = Inr adj"
    and r: "r = adj\<lparr> longTokenAmount := la, shortTokenAmount := sa \<rparr>"
    by blast
  from redistributeFees_other [OF adj] r
  have "marketTokenAmount r = DepositParams.marketTokenAmount p" "marketTokenUsd r = M"
    by (simp_all add: sameButUsd_def)
  with M show "marketTokenAmount r = DepositParams.marketTokenAmount p"
    and "case vaultInfo p of
             None \<Rightarrow> marketTokenUsd r =
               marketTokenAmountToUsd env (marketInfo p) (marketToken p) (marketTokenAmount r)
           | Some v \<Rightarrow>
               convertToUsd (marketTokenAmount r) (decimals (indexToken v))
                 (minPrice (prices (indexToken v))) = Some (marketTokenUsd r)"
    by (simp_all split: option.splits)
next
  assume res: "getDepositAmounts env p = Inr r"
    and "(strategy p = byCollaterals \<and> DepositParams.longTokenAmount p = 0
          \<and> DepositParams.shortTokenAmount p = 0)
        \<or> (strategy p = byMarketToken \<and> DepositParams.marketTokenAmount p = 0)"
  then have "r = zeroValues"
    by (auto simp: getDepositAmounts_def depositByCollaterals_def depositByMarketToken_def
        Let_def)
  then show "marketTokenAmount r = 0" and "marketTokenUsd r = 0"
    by (simp_all add: zeroValues_def)
qed

theorem marketTokenUsd_recomputable_witness:
  "getDepositAmounts refEnv exParams =
     Inr \<lparr> longTokenAmount = 1000 * 10 ^ 18, longTokenUsd = 1000 * 10 ^ 30,
           shortTokenAmount = 1000 * 10 ^ 6, shortTokenUsd = 1000 * 10 ^ 30,
           marketTokenAmount = 19966 * 10 ^ 17, marketTokenUsd = 19966 * 10 ^ 29,
           swapFeeUsd = 14 * 10 ^ 29, uiFeeUsd = 2 * 10 ^ 30, swapPriceImpactDeltaUsd = 0 \<rparr>
   \<and> \<not> (isMarketTokenDeposit exParams \<and> vaultInfo exParams \<noteq> None)
   \<and> convertToUsd (19966 * 10 ^ 17) (decimals (marketToken exParams))
        (minPrice (prices (marketToken exParams))) = Some (19966 * 10 ^ 29)"
proof -
  have e: "getDepositAmounts refEnv exParams =
     Inr \<lparr> longTokenAmount = 1000 * 10 ^ 18, longTokenUsd = 1000 * 10 ^ 30,
           shortTokenAmount = 1000 * 10 ^ 6, shortTokenUsd = 1000 * 10 ^ 30,
           marketTokenAmount = 19966 * 10 ^ 17, marketTokenUsd = 19966 * 10 ^ 29,
           swapFeeUsd = 14 * 10 ^ 29, uiFeeUsd = 2 * 10 ^ 30, swapPriceImpactDeltaUsd = 0 \<rparr>"
    by code_simp
  have ns: "\<not> (isMarketTokenDeposit exParams \<and> vaultInfo exParams \<noteq> None)"
    by (simp add: exParams_def)
  note t = marketTokenUsd_recomputable [OF e ns]
  have u: "convertToUsd (19966 * 10 ^ 17) (decimals (marketToken exParams))
        (minPrice (prices (marketToken exParams))) = Some (19966 * 10 ^ 29)"
    by code_simp
  from t e ns u show ?thesis by blast
qed

text \<open>
  The deposit of the example into a vault whose token is worth 2.00 USD: 1996.6 USD of
  market tokens are minted, and the amount is overwritten with 998.3 vault tokens.
\<close>

theorem marketTokenUsd_recomputable_counterexample:
  "getDepositAmounts refEnv
     (exParams\<lparr> vaultInfo := Some \<lparr> indexToken = token18 (2 * 10 ^ 30) \<rparr> \<rparr>) =
     Inr \<lparr> longTokenAmount = 1000 * 10 ^ 18, longTokenUsd = 1000 * 10 ^ 30,
           shortTokenAmount = 1000 * 10 ^ 6, shortTokenUsd = 1000 * 10 ^ 30,
           marketTokenAmount = 9983 * 10 ^ 17, marketTokenUsd = 19966 * 10 ^ 29,
           swapFeeUsd = 14 * 10 ^ 29, uiFeeUsd = 2 * 10 ^ 30, swapPriceImpactDeltaUsd = 0 \<rparr>
   \<and> convertToUsd (9983 * 10 ^ 17) (decimals (marketToken exParams))
        (minPrice (prices (marketToken exParams))) = Some (9983 * 10 ^ 29)"
  by code_simp

subsection \<open>The UI fee factor\<close>

lemma applyFactor_mono_factor:
  assumes "0 < PRECISION env" "0 \<le> v" "f1 \<le> f2"
  shows "applyFactor env v f1 \<le> applyFactor env v f2"
proof -
  have "v * f1 \<le> v * f2" using assms by (simp add: mult_left_mono)
  then show ?thesis unfolding applyFactor_def using assms(1) by (rule bigintDiv_mono [rotated])
qed



lemma getMarketTokenAmountByCollateral_antimono:
  assumes r1: "getMarketTokenAmountByCollateral env mi mt tin tout amount impact sfee u1 = Inr m1"
    and r2: "getMarketTokenAmountByCollateral env mi mt tin tout amount impact sfee u2 = Inr m2"
    and u: "u1 \<le> u2"
    and price: "0 < minPrice (prices tin)"
    and mono: "\<forall>x y. x \<le> y \<longrightarrow> usdToMarketTokenAmount env mi mt x \<le> usdToMarketTokenAmount env mi mt y"
  shows "m2 \<le> m1"
proof -
  define P where "P = minPrice (prices tin)"
  define D :: int where "D = 10 ^ decimals tin"
  have D: "0 < D" by (simp add: D_def)
  have P: "0 < P" "P \<noteq> 0" using price by (simp_all add: P_def)
  define fa where "fa = (\<lambda>usd. bigintDiv (usd * D) P)"
  define iu where "iu = (\<lambda>a. bigintDiv (a * P) D)"
  have fa_mono: "fa u1 \<le> fa u2"
    unfolding fa_def using u D by (intro bigintDiv_mono P) (simp add: mult_right_mono)
  have iu_mono: "iu a \<le> iu b" if "a \<le> b" for a b
    unfolding iu_def using that P by (intro bigintDiv_mono D) (simp add: mult_right_mono)
  have mint_mono: "usdToMarketTokenAmount env mi mt (iu a) \<le> usdToMarketTokenAmount env mi mt (iu b)"
    if "a \<le> b" for a b
    using mono iu_mono [OF that] by blast
  show ?thesis
  proof (cases "0 < impact")
    case True
    from r1 True obtain X where
      m1: "m1 = usdToMarketTokenAmount env mi mt X
             + usdToMarketTokenAmount env mi mt (iu (amount - fa sfee - fa u1))"
      and X1: "convertToUsd (applySwapImpactWithCap env mi tout impact) (decimals tout)
                 (maxPrice (prices tout)) = Some X"
      unfolding getMarketTokenAmountByCollateral_def Let_def
      using P by (auto simp: bindE_eq_Inr assertDefined_eq_Inr convertToTokenAmount_def
          convertToUsd_Some fa_def iu_def P_def D_def split: if_splits)
    from r2 True X1 have
      m2: "m2 = usdToMarketTokenAmount env mi mt X
             + usdToMarketTokenAmount env mi mt (iu (amount - fa sfee - fa u2))"
      unfolding getMarketTokenAmountByCollateral_def Let_def
      using P by (auto simp: bindE_eq_Inr assertDefined_eq_Inr convertToTokenAmount_def
          convertToUsd_Some fa_def iu_def P_def D_def split: if_splits)
    have "amount - fa sfee - fa u2 \<le> amount - fa sfee - fa u1" using fa_mono by simp
    from mint_mono [OF this] show ?thesis unfolding m1 m2 by simp
  next
    case False
    define N where "N = applySwapImpactWithCap env mi tin impact"
    from r1 False have
      m1: "m1 = usdToMarketTokenAmount env mi mt (iu (amount - fa sfee - fa u1 + N))"
      unfolding getMarketTokenAmountByCollateral_def Let_def
      using P by (auto simp: bindE_eq_Inr assertDefined_eq_Inr convertToTokenAmount_def
          convertToUsd_Some fa_def iu_def P_def D_def N_def split: if_splits)
    from r2 False have
      m2: "m2 = usdToMarketTokenAmount env mi mt (iu (amount - fa sfee - fa u2 + N))"
      unfolding getMarketTokenAmountByCollateral_def Let_def
      using P by (auto simp: bindE_eq_Inr assertDefined_eq_Inr convertToTokenAmount_def
          convertToUsd_Some fa_def iu_def P_def D_def N_def split: if_splits)
    have "amount - fa sfee - fa u2 + N \<le> amount - fa sfee - fa u1 + N" using fa_mono by simp
    from mint_mono [OF this] show ?thesis unfolding m1 m2 by simp
  qed
qed

lemma depositSide_other:
  assumes "depositSide env p tin tout usd amt T vals = Inr r"
  shows "DepositAmounts.longTokenAmount r = DepositAmounts.longTokenAmount vals
     \<and> longTokenUsd r = longTokenUsd vals
     \<and> DepositAmounts.shortTokenAmount r = DepositAmounts.shortTokenAmount vals
     \<and> shortTokenUsd r = shortTokenUsd vals
     \<and> marketTokenUsd r = marketTokenUsd vals
     \<and> swapPriceImpactDeltaUsd r = swapPriceImpactDeltaUsd vals"
  using assms unfolding depositSide_def Let_def
  by (auto simp: bindE_eq_Inr split: if_splits)

lemma depositSide_feeOrdered:
  assumes r1: "depositSide env (p\<lparr> uiFeeFactor := f1 \<rparr>) tin tout usd amt T a = Inr a'"
    and r2: "depositSide env (p\<lparr> uiFeeFactor := f2 \<rparr>) tin tout usd amt T b = Inr b'"
    and ab: "feeOrdered a b"
    and f: "f1 \<le> f2"
    and prec: "0 < PRECISION env"
    and price: "0 < minPrice (prices tin)"
    and mono: "\<forall>x y. x \<le> y \<longrightarrow>
        usdToMarketTokenAmount env (marketInfo p) (marketToken p) x
          \<le> usdToMarketTokenAmount env (marketInfo p) (marketToken p) y"
  shows "feeOrdered a' b'"
proof (cases "0 < usd")
  case False
  with r1 r2 ab show ?thesis by (simp add: depositSide_def)
next
  case True
  have imp: "swapPriceImpactDeltaUsd a = swapPriceImpactDeltaUsd b"
    using ab by (simp add: feeOrdered_def)
  define sfee where "sfee = (if forShift p then 0
    else getSwapFee env (marketInfo p) usd (0 < swapPriceImpactDeltaUsd b))"
  define share where "share = bigintDiv (swapPriceImpactDeltaUsd b * usd) T"
  from r1 True imp obtain m1 where
    m1: "getMarketTokenAmountByCollateral env (marketInfo p) (marketToken p) tin tout amt share
           sfee (applyFactor env usd f1) = Inr m1"
    and a': "a' = a\<lparr> swapFeeUsd := swapFeeUsd a + sfee,
        uiFeeUsd := uiFeeUsd a + applyFactor env usd f1,
        marketTokenAmount := marketTokenAmount a + m1 \<rparr>"
    unfolding depositSide_def Let_def sfee_def share_def
    by (cases "forShift p") (auto simp: bindE_eq_Inr mulDiv_eq_Inr)
  from r2 True obtain m2 where
    m2: "getMarketTokenAmountByCollateral env (marketInfo p) (marketToken p) tin tout amt share
           sfee (applyFactor env usd f2) = Inr m2"
    and b': "b' = b\<lparr> swapFeeUsd := swapFeeUsd b + sfee,
        uiFeeUsd := uiFeeUsd b + applyFactor env usd f2,
        marketTokenAmount := marketTokenAmount b + m2 \<rparr>"
    unfolding depositSide_def Let_def sfee_def share_def
    by (cases "forShift p") (auto simp: bindE_eq_Inr mulDiv_eq_Inr)
  have u: "applyFactor env usd f1 \<le> applyFactor env usd f2"
    using prec True f by (intro applyFactor_mono_factor) simp_all
  have "m2 \<le> m1"
    by (rule getMarketTokenAmountByCollateral_antimono [OF m1 m2 u price mono])
  with u ab show ?thesis unfolding a' b' by (simp add: feeOrdered_def)
qed

lemma depositByCollaterals_steps:
  assumes res: "depositByCollaterals env p = Inr r"
    and nz: "\<not> (DepositParams.longTokenAmount p = 0 \<and> DepositParams.shortTokenAmount p = 0)"
    and ns: "\<not> (isMarketTokenDeposit p \<and> vaultInfo p \<noteq> None)"
  shows "\<exists>longUsd shortUsd v1 v2 mtUsd.
      convertToUsd (DepositParams.longTokenAmount p) (decimals (longToken p))
        (getMidPrice (prices (longToken p))) = Some longUsd
      \<and> convertToUsd (DepositParams.shortTokenAmount p) (decimals (shortToken p))
          (getMidPrice (prices (shortToken p))) = Some shortUsd
      \<and> depositSide env p (longToken p) (shortToken p) longUsd (DepositParams.longTokenAmount p)
          (longUsd + shortUsd)
          \<lparr> longTokenAmount = DepositParams.longTokenAmount p, longTokenUsd = longUsd,
            shortTokenAmount = DepositParams.shortTokenAmount p, shortTokenUsd = shortUsd,
            marketTokenAmount = 0, marketTokenUsd = 0, swapFeeUsd = 0, uiFeeUsd = 0,
            swapPriceImpactDeltaUsd =
              getPriceImpactForSwap env (marketInfo p) (longToken p) (shortToken p)
                longUsd shortUsd \<rparr> = Inr v1
      \<and> depositSide env p (shortToken p) (longToken p) shortUsd
          (DepositParams.shortTokenAmount p) (longUsd + shortUsd) v1 = Inr v2
      \<and> convertToUsd (marketTokenAmount v2) (decimals (marketToken p))
          (minPrice (prices (marketToken p))) = Some mtUsd
      \<and> r = wrapVault p (v2\<lparr> marketTokenUsd := mtUsd \<rparr>)"
proof -
  have none: "(if isMarketTokenDeposit p then vaultInfo p else None) = None"
    using ns by auto
  from res nz obtain longUsd shortUsd v1 v2 mtUsd where
    l: "convertToUsd (DepositParams.longTokenAmount p) (decimals (longToken p))
        (getMidPrice (prices (longToken p))) = Some longUsd"
    and s: "convertToUsd (DepositParams.shortTokenAmount p) (decimals (shortToken p))
          (getMidPrice (prices (shortToken p))) = Some shortUsd"
    and v1: "depositSide env p (longToken p) (shortToken p) longUsd
          (DepositParams.longTokenAmount p) (longUsd + shortUsd)
          \<lparr> longTokenAmount = DepositParams.longTokenAmount p, longTokenUsd = longUsd,
            shortTokenAmount = DepositParams.shortTokenAmount p, shortTokenUsd = shortUsd,
            marketTokenAmount = 0, marketTokenUsd = 0, swapFeeUsd = 0, uiFeeUsd = 0,
            swapPriceImpactDeltaUsd =
              getPriceImpactForSwap env (marketInfo p) (longToken p) (shortToken p)
                longUsd shortUsd \<rparr> = Inr v1"
    and v2: "depositSide env p (shortToken p) (longToken p) (shortTokenUsd v1)
          (DepositAmounts.shortTokenAmount v1) (longUsd + shortUsd) v1 = Inr v2"
    and m: "convertToUsd (marketTokenAmount v2) (decimals (marketToken p))
          (minPrice (prices (marketToken p))) = Some mtUsd"
    and r: "r = wrapVault p (v2\<lparr> marketTokenUsd := mtUsd \<rparr>)"
    unfolding depositByCollaterals_def Let_def none
    by (auto simp: bindE_eq_Inr assertDefined_eq_Inr zeroValues_def)
  from depositSide_other [OF v1]
  have "shortTokenUsd v1 = shortUsd"
    "DepositAmounts.shortTokenAmount v1 = DepositParams.shortTokenAmount p"
    by simp_all
  with v2 have "depositSide env p (shortToken p) (longToken p) shortUsd
          (DepositParams.shortTokenAmount p) (longUsd + shortUsd) v1 = Inr v2"
    by simp
  with l s v1 m r show ?thesis by blast
qed

lemma wrapVault_uiFeeUsd [simp]: "uiFeeUsd (wrapVault p vals) = uiFeeUsd vals"
  by (simp add: wrapVault_def Let_def split: option.splits)

lemma feeOrdered_refl: "feeOrdered a a"
  by (simp add: feeOrdered_def)

lemma byCollaterals_ui_fee_monotone:
  assumes r1: "depositByCollaterals env (p\<lparr> uiFeeFactor := f1 \<rparr>) = Inr r1"
    and r2: "depositByCollaterals env (p\<lparr> uiFeeFactor := f2 \<rparr>) = Inr r2"
    and f: "f1 \<le> f2"
    and prec: "0 < PRECISION env"
    and pl: "0 < minPrice (prices (longToken p))"
    and ps: "0 < minPrice (prices (shortToken p))"
    and pm: "0 < minPrice (prices (marketToken p))"
    and mono: "\<forall>x y. x \<le> y \<longrightarrow>
        usdToMarketTokenAmount env (marketInfo p) (marketToken p) x
          \<le> usdToMarketTokenAmount env (marketInfo p) (marketToken p) y"
  shows "uiFeeUsd r1 \<le> uiFeeUsd r2
    \<and> ((\<forall>v. vaultInfo p = Some v \<longrightarrow>
           0 < maxPrice (prices (indexToken v))
           \<and> 0 < orZero (convertToTokenAmount (marketTokenUsd r2) (decimals (indexToken v))
                    (maxPrice (prices (indexToken v)))))
        \<longrightarrow> marketTokenAmount r2 \<le> marketTokenAmount r1)"
proof -
  let ?p1 = "p\<lparr> uiFeeFactor := f1 \<rparr>" and ?p2 = "p\<lparr> uiFeeFactor := f2 \<rparr>"
  consider
    (zero) "DepositParams.longTokenAmount p = 0 \<and> DepositParams.shortTokenAmount p = 0"
    | (shortcut) "\<not> (DepositParams.longTokenAmount p = 0 \<and> DepositParams.shortTokenAmount p = 0)"
        "isMarketTokenDeposit p \<and> vaultInfo p \<noteq> None"
    | (general) "\<not> (DepositParams.longTokenAmount p = 0 \<and> DepositParams.shortTokenAmount p = 0)"
        "\<not> (isMarketTokenDeposit p \<and> vaultInfo p \<noteq> None)"
    by blast
  then show ?thesis
  proof cases
    case zero
    with r1 r2 have "r1 = zeroValues" "r2 = zeroValues"
      by (simp_all add: depositByCollaterals_def Let_def)
    then show ?thesis by simp
  next
    case shortcut
    then obtain v where "vaultInfo p = Some v" "isMarketTokenDeposit p" by auto
    then have "depositByCollaterals env ?p1 = depositByCollaterals env ?p2"
      by (simp add: depositByCollaterals_def vaultShortcut_def Let_def)
    with r1 r2 have "r1 = r2" by simp
    then show ?thesis by simp
  next
    case general
    have nz1: "\<not> (DepositParams.longTokenAmount ?p1 = 0 \<and> DepositParams.shortTokenAmount ?p1 = 0)"
      and ns1: "\<not> (isMarketTokenDeposit ?p1 \<and> vaultInfo ?p1 \<noteq> None)"
      and nz2: "\<not> (DepositParams.longTokenAmount ?p2 = 0 \<and> DepositParams.shortTokenAmount ?p2 = 0)"
      and ns2: "\<not> (isMarketTokenDeposit ?p2 \<and> vaultInfo ?p2 \<noteq> None)"
      using general by simp_all
    from depositByCollaterals_steps [OF r1 nz1 ns1] obtain longUsd shortUsd a1 a2 aUsd where
      l1: "convertToUsd (DepositParams.longTokenAmount p) (decimals (longToken p))
        (getMidPrice (prices (longToken p))) = Some longUsd"
      and s1: "convertToUsd (DepositParams.shortTokenAmount p) (decimals (shortToken p))
          (getMidPrice (prices (shortToken p))) = Some shortUsd"
      and a1: "depositSide env ?p1 (longToken p) (shortToken p) longUsd
          (DepositParams.longTokenAmount p) (longUsd + shortUsd)
          \<lparr> longTokenAmount = DepositParams.longTokenAmount p, longTokenUsd = longUsd,
            shortTokenAmount = DepositParams.shortTokenAmount p, shortTokenUsd = shortUsd,
            marketTokenAmount = 0, marketTokenUsd = 0, swapFeeUsd = 0, uiFeeUsd = 0,
            swapPriceImpactDeltaUsd =
              getPriceImpactForSwap env (marketInfo p) (longToken p) (shortToken p)
                longUsd shortUsd \<rparr> = Inr a1"
      and a2: "depositSide env ?p1 (shortToken p) (longToken p) shortUsd
          (DepositParams.shortTokenAmount p) (longUsd + shortUsd) a1 = Inr a2"
      and aUsd: "convertToUsd (marketTokenAmount a2) (decimals (marketToken p))
          (minPrice (prices (marketToken p))) = Some aUsd"
      and ra: "r1 = wrapVault ?p1 (a2\<lparr> marketTokenUsd := aUsd \<rparr>)"
      by auto
    from depositByCollaterals_steps [OF r2 nz2 ns2] l1 s1 obtain b1 b2 bUsd where
      b1: "depositSide env ?p2 (longToken p) (shortToken p) longUsd
          (DepositParams.longTokenAmount p) (longUsd + shortUsd)
          \<lparr> longTokenAmount = DepositParams.longTokenAmount p, longTokenUsd = longUsd,
            shortTokenAmount = DepositParams.shortTokenAmount p, shortTokenUsd = shortUsd,
            marketTokenAmount = 0, marketTokenUsd = 0, swapFeeUsd = 0, uiFeeUsd = 0,
            swapPriceImpactDeltaUsd =
              getPriceImpactForSwap env (marketInfo p) (longToken p) (shortToken p)
                longUsd shortUsd \<rparr> = Inr b1"
      and b2: "depositSide env ?p2 (shortToken p) (longToken p) shortUsd
          (DepositParams.shortTokenAmount p) (longUsd + shortUsd) b1 = Inr b2"
      and bUsd: "convertToUsd (marketTokenAmount b2) (decimals (marketToken p))
          (minPrice (prices (marketToken p))) = Some bUsd"
      and rb: "r2 = wrapVault ?p2 (b2\<lparr> marketTokenUsd := bUsd \<rparr>)"
      by auto
    have o1: "feeOrdered a1 b1"
      by (rule depositSide_feeOrdered [OF a1 b1 feeOrdered_refl f prec pl mono])
    have o2: "feeOrdered a2 b2"
      by (rule depositSide_feeOrdered [OF a2 b2 o1 f prec ps mono])
    then have fee: "uiFeeUsd a2 \<le> uiFeeUsd b2"
      and amt: "marketTokenAmount b2 \<le> marketTokenAmount a2"
      by (simp_all add: feeOrdered_def)
    have aU: "aUsd = bigintDiv (marketTokenAmount a2 * minPrice (prices (marketToken p)))
        (10 ^ decimals (marketToken p))"
      and bU: "bUsd = bigintDiv (marketTokenAmount b2 * minPrice (prices (marketToken p)))
        (10 ^ decimals (marketToken p))"
      using aUsd bUsd pm by (simp_all add: convertToUsd_def)
    have usd: "bUsd \<le> aUsd"
      unfolding aU bU using amt pm by (intro bigintDiv_mono) (simp_all add: mult_right_mono)
    have ui: "uiFeeUsd r1 \<le> uiFeeUsd r2" using fee ra rb by simp
    have "marketTokenAmount r2 \<le> marketTokenAmount r1"
      if glv: "\<forall>v. vaultInfo p = Some v \<longrightarrow>
           0 < maxPrice (prices (indexToken v))
           \<and> 0 < orZero (convertToTokenAmount (marketTokenUsd r2) (decimals (indexToken v))
                    (maxPrice (prices (indexToken v))))"
    proof (cases "vaultInfo p")
      case None
      then show ?thesis using amt ra rb by (simp add: wrapVault_marketTokenAmount)
    next
      case (Some v)
      with general have nd: "\<not> isMarketTokenDeposit p" by simp
      from glv Some have vp: "0 < maxPrice (prices (indexToken v))"
        and g2: "0 < orZero (convertToTokenAmount (marketTokenUsd r2) (decimals (indexToken v))
                 (maxPrice (prices (indexToken v))))"
        by simp_all
      define G where "G = (\<lambda>u. bigintDiv (u * 10 ^ decimals (indexToken v))
        (maxPrice (prices (indexToken v))))"
      have conv: "convertToTokenAmount u (decimals (indexToken v))
          (maxPrice (prices (indexToken v))) = Some (G u)" for u
        using vp by (simp add: convertToTokenAmount_def G_def)
      have "marketTokenUsd r2 = bUsd" using rb by simp
      with g2 have gb: "0 < G bUsd" by (simp add: conv orZero_def)
      have gab: "G bUsd \<le> G aUsd"
        unfolding G_def using usd vp by (intro bigintDiv_mono) (simp_all add: mult_right_mono)
      have "marketTokenAmount r1 = G aUsd"
        using ra Some nd gb gab by (simp add: wrapVault_marketTokenAmount conv)
      moreover have "marketTokenAmount r2 = G bUsd"
        using rb Some nd gb by (simp add: wrapVault_marketTokenAmount conv)
      ultimately show ?thesis using gab by simp
    qed
    with ui show ?thesis by simp
  qed
qed

lemma byMarketToken_ui_fee_monotone:
  assumes r1: "depositByMarketToken env (p\<lparr> uiFeeFactor := f1 \<rparr>) = Inr r1"
    and r2: "depositByMarketToken env (p\<lparr> uiFeeFactor := f2 \<rparr>) = Inr r2"
    and f: "f1 \<le> f2"
    and prec: "0 < PRECISION env"
    and amt: "0 \<le> DepositParams.marketTokenAmount p"
    and val: "case vaultInfo p of
        None \<Rightarrow> 0 \<le> marketTokenAmountToUsd env (marketInfo p) (marketToken p)
                  (DepositParams.marketTokenAmount p)
      | Some v \<Rightarrow> 0 \<le> minPrice (prices (indexToken v))"
  shows "uiFeeUsd r1 \<le> uiFeeUsd r2 \<and> marketTokenAmount r2 = marketTokenAmount r1"
proof -
  let ?p1 = "p\<lparr> uiFeeFactor := f1 \<rparr>" and ?p2 = "p\<lparr> uiFeeFactor := f2 \<rparr>"
  consider
    (zero) "DepositParams.marketTokenAmount p = 0"
    | (shortcut) "DepositParams.marketTokenAmount p \<noteq> 0"
        "isMarketTokenDeposit p \<and> vaultInfo p \<noteq> None"
    | (general) "DepositParams.marketTokenAmount p \<noteq> 0"
        "\<not> (isMarketTokenDeposit p \<and> vaultInfo p \<noteq> None)"
    by blast
  then show ?thesis
  proof cases
    case zero
    with r1 r2 have "r1 = zeroValues" "r2 = zeroValues"
      by (simp_all add: depositByMarketToken_def Let_def)
    then show ?thesis by simp
  next
    case shortcut
    then obtain v where "vaultInfo p = Some v" "isMarketTokenDeposit p" by auto
    then have "depositByMarketToken env ?p1 = depositByMarketToken env ?p2"
      by (simp add: depositByMarketToken_def Let_def)
    with r1 r2 have "r1 = r2" by simp
    then show ?thesis by simp
  next
    case general
    have nz1: "DepositParams.marketTokenAmount ?p1 \<noteq> 0"
      and ns1: "\<not> (isMarketTokenDeposit ?p1 \<and> vaultInfo ?p1 \<noteq> None)"
      and nz2: "DepositParams.marketTokenAmount ?p2 \<noteq> 0"
      and ns2: "\<not> (isMarketTokenDeposit ?p2 \<and> vaultInfo ?p2 \<noteq> None)"
      using general by simp_all
    from depositByMarketToken_shape [OF r1 nz1 ns1]
    obtain M lu su F1 sf1 im1 adj1 la1 sa1 where
      M: "(case vaultInfo p of
         Some v \<Rightarrow> convertToUsd (DepositParams.marketTokenAmount p) (decimals (indexToken v))
                     (minPrice (prices (indexToken v))) = Some M
       | None \<Rightarrow> M = marketTokenAmountToUsd env (marketInfo p) (marketToken p)
                     (DepositParams.marketTokenAmount p))"
      and adj1: "redistributeFees F1 (lu + su)
            \<lparr> longTokenAmount = 0, longTokenUsd = lu, shortTokenAmount = 0,
              shortTokenUsd = su, marketTokenAmount = DepositParams.marketTokenAmount p,
              marketTokenUsd = M, swapFeeUsd = sf1, uiFeeUsd = applyFactor env M f1,
              swapPriceImpactDeltaUsd = im1 \<rparr> = Inr adj1"
      and ra: "r1 = adj1\<lparr> longTokenAmount := la1, shortTokenAmount := sa1 \<rparr>"
      by (auto cong del: if_weak_cong option.case_cong_weak)
    from depositByMarketToken_shape [OF r2 nz2 ns2] M
    obtain lu' su' F2 sf2 im2 adj2 la2 sa2 where
      adj2: "redistributeFees F2 (lu' + su')
            \<lparr> longTokenAmount = 0, longTokenUsd = lu', shortTokenAmount = 0,
              shortTokenUsd = su', marketTokenAmount = DepositParams.marketTokenAmount p,
              marketTokenUsd = M, swapFeeUsd = sf2, uiFeeUsd = applyFactor env M f2,
              swapPriceImpactDeltaUsd = im2 \<rparr> = Inr adj2"
      and rb: "r2 = adj2\<lparr> longTokenAmount := la2, shortTokenAmount := sa2 \<rparr>"
      by (cases "vaultInfo p") (auto cong del: if_weak_cong option.case_cong_weak)
    have M0: "0 \<le> M"
    proof (cases "vaultInfo p")
      case None
      with M val show ?thesis by simp
    next
      case (Some v)
      with M val amt show ?thesis
        by (auto simp: convertToUsd_def bigintDiv_nonneg split: if_splits)
    qed
    from redistributeFees_other [OF adj1] ra
    have u1: "uiFeeUsd r1 = applyFactor env M f1"
      and m1: "marketTokenAmount r1 = DepositParams.marketTokenAmount p"
      by (simp_all add: sameButUsd_def)
    from redistributeFees_other [OF adj2] rb
    have u2: "uiFeeUsd r2 = applyFactor env M f2"
      and m2: "marketTokenAmount r2 = DepositParams.marketTokenAmount p"
      by (simp_all add: sameButUsd_def)
    show ?thesis
      unfolding u1 u2 m1 m2 using applyFactor_mono_factor [OF prec M0 f] by simp
  qed
qed

lemma applyFactor_strict:
  assumes prec: "0 < PRECISION env" and nn: "0 \<le> v * f1"
    and gap: "PRECISION env \<le> v * (f2 - f1)"
  shows "applyFactor env v f1 < applyFactor env v f2"
proof -
  have sum: "v * f2 = v * f1 + v * (f2 - f1)" by (simp add: algebra_simps)
  have le: "v * f1 + PRECISION env \<le> v * f2" using gap sum by simp
  have nn2: "0 \<le> v * f2" using le nn prec by simp
  have "PRECISION env \<noteq> 0" using prec by simp
  then have "(v * f1) div PRECISION env + 1 = (v * f1 + PRECISION env) div PRECISION env"
    by (simp add: div_add_self2)
  also have "\<dots> \<le> (v * f2) div PRECISION env"
    using le prec by (simp add: zdiv_mono1)
  finally show ?thesis
    using prec nn nn2 by (simp add: applyFactor_def bigintDiv_pos)
qed

lemma depositSide_uiFeeUsd:
  assumes "depositSide env p tin tout usd amt T vals = Inr r"
  shows "uiFeeUsd r = uiFeeUsd vals + (if 0 < usd then applyFactor env usd (uiFeeFactor p) else 0)"
  using assms unfolding depositSide_def Let_def
  by (auto simp: bindE_eq_Inr split: if_splits)

lemma positive_product:
  assumes "0 < (P::int)" "P \<le> v * d" "0 \<le> d"
  shows "0 < v \<and> 0 < d"
proof -
  have "0 < v * d" using assms by simp
  with assms(3) show ?thesis by (auto simp: zero_less_mult_iff)
qed

lemma byCollaterals_ui_fee:
  assumes r1: "depositByCollaterals env (p\<lparr> uiFeeFactor := f1 \<rparr>) = Inr r1"
    and r2: "depositByCollaterals env (p\<lparr> uiFeeFactor := f2 \<rparr>) = Inr r2"
    and f: "f1 \<le> f2"
    and prec: "0 < PRECISION env"
    and ns: "\<not> (isMarketTokenDeposit p \<and> vaultInfo p \<noteq> None)"
  shows "uiFeeUsd r1 =
        (if 0 < longTokenUsd r1 then applyFactor env (longTokenUsd r1) f1 else 0)
        + (if 0 < shortTokenUsd r1 then applyFactor env (shortTokenUsd r1) f1 else 0)
    \<and> uiFeeUsd r2 =
        (if 0 < longTokenUsd r1 then applyFactor env (longTokenUsd r1) f2 else 0)
        + (if 0 < shortTokenUsd r1 then applyFactor env (shortTokenUsd r1) f2 else 0)
    \<and> (0 \<le> f1 \<and> (PRECISION env \<le> longTokenUsd r1 * (f2 - f1)
                   \<or> PRECISION env \<le> shortTokenUsd r1 * (f2 - f1))
         \<longrightarrow> uiFeeUsd r1 < uiFeeUsd r2)"
proof (cases "DepositParams.longTokenAmount p = 0 \<and> DepositParams.shortTokenAmount p = 0")
  case True
  with r1 r2 have "r1 = zeroValues" "r2 = zeroValues"
    by (simp_all add: depositByCollaterals_def Let_def)
  then show ?thesis using prec by (simp add: zeroValues_def)
next
  case False
  let ?p1 = "p\<lparr> uiFeeFactor := f1 \<rparr>" and ?p2 = "p\<lparr> uiFeeFactor := f2 \<rparr>"
  have nz1: "\<not> (DepositParams.longTokenAmount ?p1 = 0 \<and> DepositParams.shortTokenAmount ?p1 = 0)"
    and ns1: "\<not> (isMarketTokenDeposit ?p1 \<and> vaultInfo ?p1 \<noteq> None)"
    and nz2: "\<not> (DepositParams.longTokenAmount ?p2 = 0 \<and> DepositParams.shortTokenAmount ?p2 = 0)"
    and ns2: "\<not> (isMarketTokenDeposit ?p2 \<and> vaultInfo ?p2 \<noteq> None)"
    using False ns by simp_all
  from depositByCollaterals_steps [OF r1 nz1 ns1] obtain longUsd shortUsd i1 a1 a2 aUsd where
    l1: "convertToUsd (DepositParams.longTokenAmount p) (decimals (longToken p))
        (getMidPrice (prices (longToken p))) = Some longUsd"
    and s1: "convertToUsd (DepositParams.shortTokenAmount p) (decimals (shortToken p))
          (getMidPrice (prices (shortToken p))) = Some shortUsd"
    and a1: "depositSide env ?p1 (longToken p) (shortToken p) longUsd
          (DepositParams.longTokenAmount p) (longUsd + shortUsd)
          \<lparr> longTokenAmount = DepositParams.longTokenAmount p, longTokenUsd = longUsd,
            shortTokenAmount = DepositParams.shortTokenAmount p, shortTokenUsd = shortUsd,
            marketTokenAmount = 0, marketTokenUsd = 0, swapFeeUsd = 0, uiFeeUsd = 0,
            swapPriceImpactDeltaUsd = i1 \<rparr> = Inr a1"
    and a2: "depositSide env ?p1 (shortToken p) (longToken p) shortUsd
          (DepositParams.shortTokenAmount p) (longUsd + shortUsd) a1 = Inr a2"
    and ra: "r1 = wrapVault ?p1 (a2\<lparr> marketTokenUsd := aUsd \<rparr>)"
    by auto
  from depositByCollaterals_steps [OF r2 nz2 ns2] l1 s1 obtain i2 b1 b2 bUsd where
    b1: "depositSide env ?p2 (longToken p) (shortToken p) longUsd
          (DepositParams.longTokenAmount p) (longUsd + shortUsd)
          \<lparr> longTokenAmount = DepositParams.longTokenAmount p, longTokenUsd = longUsd,
            shortTokenAmount = DepositParams.shortTokenAmount p, shortTokenUsd = shortUsd,
            marketTokenAmount = 0, marketTokenUsd = 0, swapFeeUsd = 0, uiFeeUsd = 0,
            swapPriceImpactDeltaUsd = i2 \<rparr> = Inr b1"
    and b2: "depositSide env ?p2 (shortToken p) (longToken p) shortUsd
          (DepositParams.shortTokenAmount p) (longUsd + shortUsd) b1 = Inr b2"
    and rb: "r2 = wrapVault ?p2 (b2\<lparr> marketTokenUsd := bUsd \<rparr>)"
    by auto
  define side where "side = (\<lambda>usd f. if 0 < usd then applyFactor env usd f else (0::int))"
  have ua: "uiFeeUsd a2 = side longUsd f1 + side shortUsd f1"
    using depositSide_uiFeeUsd [OF a1] depositSide_uiFeeUsd [OF a2] by (simp add: side_def)
  have ub: "uiFeeUsd b2 = side longUsd f2 + side shortUsd f2"
    using depositSide_uiFeeUsd [OF b1] depositSide_uiFeeUsd [OF b2] by (simp add: side_def)
  from depositSide_other [OF a1] depositSide_other [OF a2]
  have la: "longTokenUsd a2 = longUsd" "shortTokenUsd a2 = shortUsd" by simp_all
  from depositSide_other [OF b1] depositSide_other [OF b2]
  have lb: "longTokenUsd b2 = longUsd" "shortTokenUsd b2 = shortUsd" by simp_all
  have f1: "uiFeeUsd r1 = side longUsd f1 + side shortUsd f1"
    and l1': "longTokenUsd r1 = longUsd" and s1': "shortTokenUsd r1 = shortUsd"
    using ra ua la by (simp_all add: wrapVault_other)
  have f2: "uiFeeUsd r2 = side longUsd f2 + side shortUsd f2"
    and l2': "longTokenUsd r2 = longUsd" and s2': "shortTokenUsd r2 = shortUsd"
    using rb ub lb by (simp_all add: wrapVault_other)
  have mono: "side usd f1 \<le> side usd f2" for usd
    using applyFactor_mono_factor [OF prec _ f, of usd] by (simp add: side_def)
  have strict: "side usd f1 < side usd f2"
    if "0 \<le> f1" "PRECISION env \<le> usd * (f2 - f1)" for usd
  proof -
    from positive_product [OF prec that(2)] f have u: "0 < usd" by simp
    then have "0 \<le> usd * f1" using that(1) by simp
    from applyFactor_strict [OF prec this that(2)] u show ?thesis by (simp add: side_def)
  qed
  have less: "uiFeeUsd r1 < uiFeeUsd r2"
    if "0 \<le> f1" "PRECISION env \<le> longUsd * (f2 - f1) \<or> PRECISION env \<le> shortUsd * (f2 - f1)"
    using that(2)
  proof
    assume "PRECISION env \<le> longUsd * (f2 - f1)"
    from strict [OF that(1) this] mono [of shortUsd] show ?thesis unfolding f1 f2 by simp
  next
    assume "PRECISION env \<le> shortUsd * (f2 - f1)"
    from strict [OF that(1) this] mono [of longUsd] show ?thesis unfolding f1 f2 by simp
  qed
  have A: "uiFeeUsd r1 = side (longTokenUsd r1) f1 + side (shortTokenUsd r1) f1"
    unfolding l1' s1' by (rule f1)
  have B: "uiFeeUsd r2 = side (longTokenUsd r1) f2 + side (shortTokenUsd r1) f2"
    unfolding l1' s1' by (rule f2)
  have C: "0 \<le> f1 \<and> (PRECISION env \<le> longTokenUsd r1 * (f2 - f1)
                   \<or> PRECISION env \<le> shortTokenUsd r1 * (f2 - f1))
         \<longrightarrow> uiFeeUsd r1 < uiFeeUsd r2"
    unfolding l1' s1' using less by blast
  from A B C show ?thesis unfolding side_def by (intro conjI)
qed

lemma byMarketToken_ui_fee:
  assumes r1: "depositByMarketToken env (p\<lparr> uiFeeFactor := f1 \<rparr>) = Inr r1"
    and r2: "depositByMarketToken env (p\<lparr> uiFeeFactor := f2 \<rparr>) = Inr r2"
    and f: "f1 \<le> f2"
    and prec: "0 < PRECISION env"
    and ns: "\<not> (isMarketTokenDeposit p \<and> vaultInfo p \<noteq> None)"
  shows "uiFeeUsd r1 = applyFactor env (marketTokenUsd r1) f1
    \<and> uiFeeUsd r2 = applyFactor env (marketTokenUsd r1) f2
    \<and> (0 \<le> f1 \<and> PRECISION env \<le> marketTokenUsd r1 * (f2 - f1)
         \<longrightarrow> uiFeeUsd r1 < uiFeeUsd r2)"
proof (cases "DepositParams.marketTokenAmount p = 0")
  case True
  with r1 r2 have "r1 = zeroValues" "r2 = zeroValues"
    by (simp_all add: depositByMarketToken_def Let_def)
  then show ?thesis using prec by (simp add: zeroValues_def applyFactor_def)
next
  case False
  let ?p1 = "p\<lparr> uiFeeFactor := f1 \<rparr>" and ?p2 = "p\<lparr> uiFeeFactor := f2 \<rparr>"
  have nz1: "DepositParams.marketTokenAmount ?p1 \<noteq> 0"
    and ns1: "\<not> (isMarketTokenDeposit ?p1 \<and> vaultInfo ?p1 \<noteq> None)"
    and nz2: "DepositParams.marketTokenAmount ?p2 \<noteq> 0"
    and ns2: "\<not> (isMarketTokenDeposit ?p2 \<and> vaultInfo ?p2 \<noteq> None)"
    using False ns by simp_all
  from depositByMarketToken_shape [OF r1 nz1 ns1]
  obtain M lu su F1 sf1 im1 adj1 la1 sa1 where
    M: "(case vaultInfo p of
         Some v \<Rightarrow> convertToUsd (DepositParams.marketTokenAmount p) (decimals (indexToken v))
                     (minPrice (prices (indexToken v))) = Some M
       | None \<Rightarrow> M = marketTokenAmountToUsd env (marketInfo p) (marketToken p)
                     (DepositParams.marketTokenAmount p))"
    and adj1: "redistributeFees F1 (lu + su)
            \<lparr> longTokenAmount = 0, longTokenUsd = lu, shortTokenAmount = 0,
              shortTokenUsd = su, marketTokenAmount = DepositParams.marketTokenAmount p,
              marketTokenUsd = M, swapFeeUsd = sf1, uiFeeUsd = applyFactor env M f1,
              swapPriceImpactDeltaUsd = im1 \<rparr> = Inr adj1"
    and ra: "r1 = adj1\<lparr> longTokenAmount := la1, shortTokenAmount := sa1 \<rparr>"
    by (auto cong del: if_weak_cong option.case_cong_weak)
  from depositByMarketToken_shape [OF r2 nz2 ns2] M
  obtain lu' su' F2 sf2 im2 adj2 la2 sa2 where
    adj2: "redistributeFees F2 (lu' + su')
            \<lparr> longTokenAmount = 0, longTokenUsd = lu', shortTokenAmount = 0,
              shortTokenUsd = su', marketTokenAmount = DepositParams.marketTokenAmount p,
              marketTokenUsd = M, swapFeeUsd = sf2, uiFeeUsd = applyFactor env M f2,
              swapPriceImpactDeltaUsd = im2 \<rparr> = Inr adj2"
    and rb: "r2 = adj2\<lparr> longTokenAmount := la2, shortTokenAmount := sa2 \<rparr>"
    by (cases "vaultInfo p") (auto cong del: if_weak_cong option.case_cong_weak)
  from redistributeFees_other [OF adj1] ra
  have u1: "uiFeeUsd r1 = applyFactor env M f1" and m1: "marketTokenUsd r1 = M"
    by (simp_all add: sameButUsd_def)
  from redistributeFees_other [OF adj2] rb
  have u2: "uiFeeUsd r2 = applyFactor env M f2" and m2: "marketTokenUsd r2 = M"
    by (simp_all add: sameButUsd_def)
  have "applyFactor env M f1 < applyFactor env M f2"
    if "0 \<le> f1" "PRECISION env \<le> M * (f2 - f1)"
  proof -
    from positive_product [OF prec that(2)] f have "0 < M" by simp
    then have "0 \<le> M * f1" using that(1) by simp
    from applyFactor_strict [OF prec this that(2)] show ?thesis .
  qed
  then show ?thesis unfolding u1 u2 m1 by blast
qed

text \<open>
  Claim C4, as amended. Take two calls that differ only in the UI fee factor and both
  return, with positive minimum prices of the three tokens and a mint function of the
  market that is monotone. The call with the larger factor returns a UI fee that is not
  smaller. Outside the vault shortcut the UI fee is the factor applied to the fee
  notional: to each positive side value in the strategy byCollaterals, to the market token
  value in the strategy byMarketToken. It is strictly larger when the smaller factor is
  not negative and the notional times the increase of the factor reaches the precision; a
  smaller increase can be lost in the rounding. The market token amount of the call with
  the larger factor is not larger, provided that, where a vault wraps a byCollaterals
  deposit, the value it minted still converts to a positive amount of vault tokens.
\<close>

theorem ui_fee_monotone:
  assumes r1: "getDepositAmounts env (p\<lparr> uiFeeFactor := f1 \<rparr>) = Inr r1"
    and r2: "getDepositAmounts env (p\<lparr> uiFeeFactor := f2 \<rparr>) = Inr r2"
    and f: "f1 \<le> f2"
    and prec: "0 < PRECISION env"
    and pl: "0 < minPrice (prices (longToken p))"
    and ps: "0 < minPrice (prices (shortToken p))"
    and pm: "0 < minPrice (prices (marketToken p))"
    and mono: "\<forall>x y. x \<le> y \<longrightarrow>
        usdToMarketTokenAmount env (marketInfo p) (marketToken p) x
          \<le> usdToMarketTokenAmount env (marketInfo p) (marketToken p) y"
    and val: "strategy p = byMarketToken \<longrightarrow>
        0 \<le> DepositParams.marketTokenAmount p
        \<and> (case vaultInfo p of
             None \<Rightarrow> 0 \<le> marketTokenAmountToUsd env (marketInfo p) (marketToken p)
                       (DepositParams.marketTokenAmount p)
           | Some v \<Rightarrow> 0 \<le> minPrice (prices (indexToken v)))"
  shows "uiFeeUsd r1 \<le> uiFeeUsd r2
    \<and> (\<not> (isMarketTokenDeposit p \<and> vaultInfo p \<noteq> None) \<longrightarrow>
         (case strategy p of
            byCollaterals \<Rightarrow>
              uiFeeUsd r1 =
                (if 0 < longTokenUsd r1 then applyFactor env (longTokenUsd r1) f1 else 0)
                + (if 0 < shortTokenUsd r1 then applyFactor env (shortTokenUsd r1) f1 else 0)
              \<and> uiFeeUsd r2 =
                (if 0 < longTokenUsd r1 then applyFactor env (longTokenUsd r1) f2 else 0)
                + (if 0 < shortTokenUsd r1 then applyFactor env (shortTokenUsd r1) f2 else 0)
          | byMarketToken \<Rightarrow>
              uiFeeUsd r1 = applyFactor env (marketTokenUsd r1) f1
              \<and> uiFeeUsd r2 = applyFactor env (marketTokenUsd r1) f2)
         \<and> (0 \<le> f1
              \<and> (case strategy p of
                    byCollaterals \<Rightarrow>
                      PRECISION env \<le> longTokenUsd r1 * (f2 - f1)
                      \<or> PRECISION env \<le> shortTokenUsd r1 * (f2 - f1)
                  | byMarketToken \<Rightarrow> PRECISION env \<le> marketTokenUsd r1 * (f2 - f1))
            \<longrightarrow> uiFeeUsd r1 < uiFeeUsd r2))
    \<and> ((\<forall>v. strategy p = byCollaterals \<and> vaultInfo p = Some v \<longrightarrow>
           0 < maxPrice (prices (indexToken v))
           \<and> 0 < orZero (convertToTokenAmount (marketTokenUsd r2) (decimals (indexToken v))
                    (maxPrice (prices (indexToken v)))))
        \<longrightarrow> marketTokenAmount r2 \<le> marketTokenAmount r1)"
proof (cases "strategy p")
  case byCollaterals
  with r1 r2 have d1: "depositByCollaterals env (p\<lparr> uiFeeFactor := f1 \<rparr>) = Inr r1"
    and d2: "depositByCollaterals env (p\<lparr> uiFeeFactor := f2 \<rparr>) = Inr r2"
    by (simp_all add: getDepositAmounts_def)
  note order = byCollaterals_ui_fee_monotone [OF d1 d2 f prec pl ps pm mono]
  have exact: "uiFeeUsd r1 =
        (if 0 < longTokenUsd r1 then applyFactor env (longTokenUsd r1) f1 else 0)
        + (if 0 < shortTokenUsd r1 then applyFactor env (shortTokenUsd r1) f1 else 0)
    \<and> uiFeeUsd r2 =
        (if 0 < longTokenUsd r1 then applyFactor env (longTokenUsd r1) f2 else 0)
        + (if 0 < shortTokenUsd r1 then applyFactor env (shortTokenUsd r1) f2 else 0)
    \<and> (0 \<le> f1 \<and> (PRECISION env \<le> longTokenUsd r1 * (f2 - f1)
                   \<or> PRECISION env \<le> shortTokenUsd r1 * (f2 - f1))
         \<longrightarrow> uiFeeUsd r1 < uiFeeUsd r2)"
    if ns: "\<not> (isMarketTokenDeposit p \<and> vaultInfo p \<noteq> None)"
    by (rule byCollaterals_ui_fee [OF d1 d2 f prec ns])
  show ?thesis
  proof (intro conjI impI)
    show "uiFeeUsd r1 \<le> uiFeeUsd r2" using order by simp
  next
    assume "\<not> (isMarketTokenDeposit p \<and> vaultInfo p \<noteq> None)"
    from exact [OF this, THEN conjunct1] exact [OF this, THEN conjunct2, THEN conjunct1]
      byCollaterals
    show "case strategy p of
            byCollaterals \<Rightarrow>
              uiFeeUsd r1 =
                (if 0 < longTokenUsd r1 then applyFactor env (longTokenUsd r1) f1 else 0)
                + (if 0 < shortTokenUsd r1 then applyFactor env (shortTokenUsd r1) f1 else 0)
              \<and> uiFeeUsd r2 =
                (if 0 < longTokenUsd r1 then applyFactor env (longTokenUsd r1) f2 else 0)
                + (if 0 < shortTokenUsd r1 then applyFactor env (shortTokenUsd r1) f2 else 0)
          | byMarketToken \<Rightarrow>
              uiFeeUsd r1 = applyFactor env (marketTokenUsd r1) f1
              \<and> uiFeeUsd r2 = applyFactor env (marketTokenUsd r1) f2"
      by simp
  next
    assume ns: "\<not> (isMarketTokenDeposit p \<and> vaultInfo p \<noteq> None)"
      and c: "0 \<le> f1
              \<and> (case strategy p of
                    byCollaterals \<Rightarrow>
                      PRECISION env \<le> longTokenUsd r1 * (f2 - f1)
                      \<or> PRECISION env \<le> shortTokenUsd r1 * (f2 - f1)
                  | byMarketToken \<Rightarrow> PRECISION env \<le> marketTokenUsd r1 * (f2 - f1))"
    from c byCollaterals have "0 \<le> f1 \<and> (PRECISION env \<le> longTokenUsd r1 * (f2 - f1)
        \<or> PRECISION env \<le> shortTokenUsd r1 * (f2 - f1))"
      by simp
    with exact [OF ns, THEN conjunct2, THEN conjunct2]
    show "uiFeeUsd r1 < uiFeeUsd r2" by blast
  next
    assume "\<forall>v. strategy p = byCollaterals \<and> vaultInfo p = Some v \<longrightarrow>
           0 < maxPrice (prices (indexToken v))
           \<and> 0 < orZero (convertToTokenAmount (marketTokenUsd r2) (decimals (indexToken v))
                    (maxPrice (prices (indexToken v))))"
    with order byCollaterals show "marketTokenAmount r2 \<le> marketTokenAmount r1" by simp
  qed
next
  case byMarketToken
  with r1 r2 have d1: "depositByMarketToken env (p\<lparr> uiFeeFactor := f1 \<rparr>) = Inr r1"
    and d2: "depositByMarketToken env (p\<lparr> uiFeeFactor := f2 \<rparr>) = Inr r2"
    by (simp_all add: getDepositAmounts_def)
  from byMarketToken val have amt: "0 \<le> DepositParams.marketTokenAmount p"
    and v: "case vaultInfo p of
        None \<Rightarrow> 0 \<le> marketTokenAmountToUsd env (marketInfo p) (marketToken p)
                  (DepositParams.marketTokenAmount p)
      | Some v \<Rightarrow> 0 \<le> minPrice (prices (indexToken v))"
    by simp_all
  note order = byMarketToken_ui_fee_monotone [OF d1 d2 f prec amt v]
  have exact: "uiFeeUsd r1 = applyFactor env (marketTokenUsd r1) f1
    \<and> uiFeeUsd r2 = applyFactor env (marketTokenUsd r1) f2
    \<and> (0 \<le> f1 \<and> PRECISION env \<le> marketTokenUsd r1 * (f2 - f1)
         \<longrightarrow> uiFeeUsd r1 < uiFeeUsd r2)"
    if ns: "\<not> (isMarketTokenDeposit p \<and> vaultInfo p \<noteq> None)"
    by (rule byMarketToken_ui_fee [OF d1 d2 f prec ns])
  show ?thesis
  proof (intro conjI impI)
    show "uiFeeUsd r1 \<le> uiFeeUsd r2" using order by simp
  next
    assume "\<not> (isMarketTokenDeposit p \<and> vaultInfo p \<noteq> None)"
    from exact [OF this, THEN conjunct1] exact [OF this, THEN conjunct2, THEN conjunct1]
      byMarketToken
    show "case strategy p of
            byCollaterals \<Rightarrow>
              uiFeeUsd r1 =
                (if 0 < longTokenUsd r1 then applyFactor env (longTokenUsd r1) f1 else 0)
                + (if 0 < shortTokenUsd r1 then applyFactor env (shortTokenUsd r1) f1 else 0)
              \<and> uiFeeUsd r2 =
                (if 0 < longTokenUsd r1 then applyFactor env (longTokenUsd r1) f2 else 0)
                + (if 0 < shortTokenUsd r1 then applyFactor env (shortTokenUsd r1) f2 else 0)
          | byMarketToken \<Rightarrow>
              uiFeeUsd r1 = applyFactor env (marketTokenUsd r1) f1
              \<and> uiFeeUsd r2 = applyFactor env (marketTokenUsd r1) f2"
      by simp
  next
    assume ns: "\<not> (isMarketTokenDeposit p \<and> vaultInfo p \<noteq> None)"
      and c: "0 \<le> f1
              \<and> (case strategy p of
                    byCollaterals \<Rightarrow>
                      PRECISION env \<le> longTokenUsd r1 * (f2 - f1)
                      \<or> PRECISION env \<le> shortTokenUsd r1 * (f2 - f1)
                  | byMarketToken \<Rightarrow> PRECISION env \<le> marketTokenUsd r1 * (f2 - f1))"
    from c byMarketToken have "0 \<le> f1 \<and> PRECISION env \<le> marketTokenUsd r1 * (f2 - f1)"
      by simp
    with exact [OF ns, THEN conjunct2, THEN conjunct2]
    show "uiFeeUsd r1 < uiFeeUsd r2" by blast
  next
    from order show "marketTokenAmount r2 \<le> marketTokenAmount r1" by simp
  qed
qed

lemma refEnv_mint_mono:
  "\<forall>x y. x \<le> y \<longrightarrow>
     usdToMarketTokenAmount refEnv (marketInfo exParams) (marketToken exParams) x
       \<le> usdToMarketTokenAmount refEnv (marketInfo exParams) (marketToken exParams) y"
  by (simp add: refEnv_def exParams_def token18_def convertToTokenAmount_def orZero_def
      bigintDiv_mono)

theorem ui_fee_monotone_witness:
  "getDepositAmounts refEnv (exParams\<lparr> uiFeeFactor := 10 ^ 27 \<rparr>) =
     Inr \<lparr> longTokenAmount = 1000 * 10 ^ 18, longTokenUsd = 1000 * 10 ^ 30,
           shortTokenAmount = 1000 * 10 ^ 6, shortTokenUsd = 1000 * 10 ^ 30,
           marketTokenAmount = 19966 * 10 ^ 17, marketTokenUsd = 19966 * 10 ^ 29,
           swapFeeUsd = 14 * 10 ^ 29, uiFeeUsd = 2 * 10 ^ 30, swapPriceImpactDeltaUsd = 0 \<rparr>
   \<and> getDepositAmounts refEnv (exParams\<lparr> uiFeeFactor := 2 * 10 ^ 27 \<rparr>) =
     Inr \<lparr> longTokenAmount = 1000 * 10 ^ 18, longTokenUsd = 1000 * 10 ^ 30,
           shortTokenAmount = 1000 * 10 ^ 6, shortTokenUsd = 1000 * 10 ^ 30,
           marketTokenAmount = 19946 * 10 ^ 17, marketTokenUsd = 19946 * 10 ^ 29,
           swapFeeUsd = 14 * 10 ^ 29, uiFeeUsd = 4 * 10 ^ 30, swapPriceImpactDeltaUsd = 0 \<rparr>
   \<and> (10 ^ 27 :: int) \<le> 2 * 10 ^ 27
   \<and> PRECISION refEnv \<le> 1000 * 10 ^ 30 * (2 * 10 ^ 27 - 10 ^ 27)
   \<and> (2 * 10 ^ 30 :: int) < 4 * 10 ^ 30
   \<and> (19946 * 10 ^ 17 :: int) \<le> 19966 * 10 ^ 17"
proof -
  let ?r1 = "\<lparr> longTokenAmount = 1000 * 10 ^ 18, longTokenUsd = 1000 * 10 ^ 30,
           shortTokenAmount = 1000 * 10 ^ 6, shortTokenUsd = 1000 * 10 ^ 30,
           marketTokenAmount = 19966 * 10 ^ 17, marketTokenUsd = 19966 * 10 ^ 29,
           swapFeeUsd = 14 * 10 ^ 29, uiFeeUsd = 2 * 10 ^ 30, swapPriceImpactDeltaUsd = 0 \<rparr>"
  have e1: "getDepositAmounts refEnv (exParams\<lparr> uiFeeFactor := 10 ^ 27 \<rparr>) = Inr ?r1"
    by code_simp
  have e2: "getDepositAmounts refEnv (exParams\<lparr> uiFeeFactor := 2 * 10 ^ 27 \<rparr>) =
     Inr \<lparr> longTokenAmount = 1000 * 10 ^ 18, longTokenUsd = 1000 * 10 ^ 30,
           shortTokenAmount = 1000 * 10 ^ 6, shortTokenUsd = 1000 * 10 ^ 30,
           marketTokenAmount = 19946 * 10 ^ 17, marketTokenUsd = 19946 * 10 ^ 29,
           swapFeeUsd = 14 * 10 ^ 29, uiFeeUsd = 4 * 10 ^ 30, swapPriceImpactDeltaUsd = 0 \<rparr>"
    by code_simp
  have f: "(10 ^ 27 :: int) \<le> 2 * 10 ^ 27" by simp
  have prec: "0 < PRECISION refEnv" by (simp add: refEnv_def)
  have pr: "0 < minPrice (prices (longToken exParams))"
    "0 < minPrice (prices (shortToken exParams))"
    "0 < minPrice (prices (marketToken exParams))"
    by (simp_all add: exParams_def token18_def token6_def)
  have val: "strategy exParams = byMarketToken \<longrightarrow>
        0 \<le> DepositParams.marketTokenAmount exParams
        \<and> (case vaultInfo exParams of
             None \<Rightarrow> 0 \<le> marketTokenAmountToUsd refEnv (marketInfo exParams)
                       (marketToken exParams) (DepositParams.marketTokenAmount exParams)
           | Some v \<Rightarrow> 0 \<le> minPrice (prices (indexToken v)))"
    by (simp add: exParams_def)
  have nv: "\<forall>v. strategy exParams = byCollaterals \<and> vaultInfo exParams = Some v \<longrightarrow>
           0 < maxPrice (prices (indexToken v))
           \<and> 0 < orZero (convertToTokenAmount (19946 * 10 ^ 29) (decimals (indexToken v))
                    (maxPrice (prices (indexToken v))))"
    by (simp add: exParams_def)
  have ns: "\<not> (isMarketTokenDeposit exParams \<and> vaultInfo exParams \<noteq> None)"
    by (simp add: exParams_def)
  have gap: "PRECISION refEnv \<le> 1000 * 10 ^ 30 * (2 * 10 ^ 27 - 10 ^ 27)"
    by (simp add: refEnv_def)
  have c: "(0::int) \<le> 10 ^ 27
      \<and> (case strategy exParams of
            byCollaterals \<Rightarrow>
              PRECISION refEnv \<le> longTokenUsd ?r1 * (2 * 10 ^ 27 - 10 ^ 27)
              \<or> PRECISION refEnv \<le> shortTokenUsd ?r1 * (2 * 10 ^ 27 - 10 ^ 27)
          | byMarketToken \<Rightarrow> PRECISION refEnv \<le> marketTokenUsd ?r1 * (2 * 10 ^ 27 - 10 ^ 27))"
    by (simp add: exParams_def refEnv_def)
  note t = ui_fee_monotone [OF e1 e2 f prec pr refEnv_mint_mono val]
  from t [THEN conjunct2, THEN conjunct1, rule_format, OF ns, THEN conjunct2, rule_format, OF c]
  have s: "(2 * 10 ^ 30 :: int) < 4 * 10 ^ 30" by simp
  from t [THEN conjunct2, THEN conjunct2] nv
  have m: "(19946 * 10 ^ 17 :: int) \<le> 19966 * 10 ^ 17" by simp
  from e1 e2 f gap s m show ?thesis by blast
qed

text \<open>
  A deposit of half a token: raising the factor from 0.1 percent by \<open>10^-30\<close> leaves the
  UI fee where it is. A deposit of 100 base units into a vault whose token is worth 100
  USD: without a UI fee one vault token is returned, with a UI fee of 2 percent the
  conversion to vault tokens rounds to zero and 98 units of the market token are.
\<close>

theorem ui_fee_monotone_counterexample:
  "getDepositAmounts refEnv
     (exParams\<lparr> DepositParams.longTokenAmount := 5 * 10 ^ 17,
        DepositParams.shortTokenAmount := 0, uiFeeFactor := 10 ^ 27 \<rparr>) =
     Inr \<lparr> longTokenAmount = 5 * 10 ^ 17, longTokenUsd = 5 * 10 ^ 29,
           shortTokenAmount = 0, shortTokenUsd = 0,
           marketTokenAmount = 49915 * 10 ^ 13, marketTokenUsd = 49915 * 10 ^ 25,
           swapFeeUsd = 35 * 10 ^ 25, uiFeeUsd = 5 * 10 ^ 26, swapPriceImpactDeltaUsd = 0 \<rparr>
   \<and> getDepositAmounts refEnv
     (exParams\<lparr> DepositParams.longTokenAmount := 5 * 10 ^ 17,
        DepositParams.shortTokenAmount := 0, uiFeeFactor := 10 ^ 27 + 1 \<rparr>) =
     Inr \<lparr> longTokenAmount = 5 * 10 ^ 17, longTokenUsd = 5 * 10 ^ 29,
           shortTokenAmount = 0, shortTokenUsd = 0,
           marketTokenAmount = 49915 * 10 ^ 13, marketTokenUsd = 49915 * 10 ^ 25,
           swapFeeUsd = 35 * 10 ^ 25, uiFeeUsd = 5 * 10 ^ 26, swapPriceImpactDeltaUsd = 0 \<rparr>
   \<and> getDepositAmounts refEnv
     (exParams\<lparr> DepositParams.longTokenAmount := 100, DepositParams.shortTokenAmount := 0,
        uiFeeFactor := 0, vaultInfo := Some \<lparr> indexToken = token18 (100 * 10 ^ 30) \<rparr> \<rparr>) =
     Inr \<lparr> longTokenAmount = 100, longTokenUsd = 10 ^ 14,
           shortTokenAmount = 0, shortTokenUsd = 0,
           marketTokenAmount = 1, marketTokenUsd = 10 ^ 14,
           swapFeeUsd = 7 * 10 ^ 10, uiFeeUsd = 0, swapPriceImpactDeltaUsd = 0 \<rparr>
   \<and> getDepositAmounts refEnv
     (exParams\<lparr> DepositParams.longTokenAmount := 100, DepositParams.shortTokenAmount := 0,
        uiFeeFactor := 2 * 10 ^ 28,
        vaultInfo := Some \<lparr> indexToken = token18 (100 * 10 ^ 30) \<rparr> \<rparr>) =
     Inr \<lparr> longTokenAmount = 100, longTokenUsd = 10 ^ 14,
           shortTokenAmount = 0, shortTokenUsd = 0,
           marketTokenAmount = 98, marketTokenUsd = 98 * 10 ^ 12,
           swapFeeUsd = 7 * 10 ^ 10, uiFeeUsd = 2 * 10 ^ 12, swapPriceImpactDeltaUsd = 0 \<rparr>"
  by code_simp

subsection \<open>The sign of the outputs\<close>















lemma wrapVault_swapPriceImpactDeltaUsd [simp]:
  "swapPriceImpactDeltaUsd (wrapVault p vals) = swapPriceImpactDeltaUsd vals"
  by (simp add: wrapVault_def Let_def split: option.splits)












end
